theory Spec2Isabelle
  imports Main
begin

section \<open>Python strings, bytes and exceptions\<close>

text \<open>
  A Python \<^verbatim>\<open>str\<close> is a sequence of Unicode code points, and \<^verbatim>\<open>len\<close>, slicing and
  \<^verbatim>\<open>in\<close> count code points. A \<^verbatim>\<open>str\<close> is therefore a list of code points (natural
  numbers; Python only has those up to \<^verbatim>\<open>0x10FFFF\<close>), and \<^verbatim>\<open>bytes\<close> is a list of
  8-bit characters. The ASCII literals of the source are written with \<open>lit\<close>.
\<close>

type_synonym codepoint = nat
type_synonym pystr = "codepoint list"
type_synonym bytes = "char list"

definition lit :: "string \<Rightarrow> pystr" where
  "lit s = map of_char s"

text \<open>The exceptions the modelled code can raise; \<open>KeyError\<close> carries the missing key.\<close>

datatype error =
    KeyError pystr
  | TypeError
  | AttributeError
  | UnicodeEncodeError

definition ebind :: "error + 'a \<Rightarrow> ('a \<Rightarrow> error + 'b) \<Rightarrow> error + 'b" where
  "ebind m f = (case m of Inl e \<Rightarrow> Inl e | Inr x \<Rightarrow> f x)"

text \<open>\<^verbatim>\<open>s.startswith(p)\<close> and the substring test \<^verbatim>\<open>sub in s\<close>.\<close>

fun startswith :: "pystr \<Rightarrow> pystr \<Rightarrow> bool" where
  "startswith s [] = True"
| "startswith [] (p # ps) = False"
| "startswith (c # cs) (p # ps) = (c = p \<and> startswith cs ps)"

fun py_in :: "pystr \<Rightarrow> pystr \<Rightarrow> bool" where
  "py_in sub [] = (sub = [])"
| "py_in sub (c # cs) = (startswith (c # cs) sub \<or> py_in sub cs)"


text \<open>\<^verbatim>\<open>str(n)\<close> for an integer: decimal digits, with a minus sign when negative.\<close>

fun digits10 :: "nat \<Rightarrow> pystr" where
  "digits10 n = (if n < 10 then [48 + n] else digits10 (n div 10) @ [48 + n mod 10])"

declare digits10.simps [simp del]

definition str_int :: "int \<Rightarrow> pystr" where
  "str_int i = (if i < 0 then 45 # digits10 (nat (- i)) else digits10 (nat i))"

text \<open>
  \<^verbatim>\<open>'{}'.format(x)\<close> of a value that is a \<^verbatim>\<open>str\<close> or \<^verbatim>\<open>None\<close>: the string itself, or
  the text \<^verbatim>\<open>None\<close>.
\<close>

definition format_opt :: "pystr option \<Rightarrow> pystr" where
  "format_opt x = (case x of None \<Rightarrow> lit ''None'' | Some s \<Rightarrow> s)"

text \<open>\<^verbatim>\<open>str(b).lower()\<close> of a boolean.\<close>

definition str_bool_lower :: "bool \<Rightarrow> pystr" where
  "str_bool_lower b = (if b then lit ''true'' else lit ''false'')"

text \<open>
  \<^verbatim>\<open>data.encode()\<close>: UTF-8 with the \<^verbatim>\<open>strict\<close> error handler, which raises
  \<^verbatim>\<open>UnicodeEncodeError\<close> on a lone surrogate (\<^verbatim>\<open>U+D800\<close> to \<^verbatim>\<open>U+DFFF\<close>).
\<close>

definition is_surrogate :: "codepoint \<Rightarrow> bool" where
  "is_surrogate c = (55296 \<le> c \<and> c \<le> 57343)"

definition utf8 :: "codepoint \<Rightarrow> bytes" where
  "utf8 c =
     (if c < 128 then [char_of c]
      else if c < 2048 then [char_of (192 + c div 64), char_of (128 + c mod 64)]
      else if c < 65536 then
        [char_of (224 + c div 4096), char_of (128 + c div 64 mod 64), char_of (128 + c mod 64)]
      else
        [char_of (240 + c div 262144), char_of (128 + c div 4096 mod 64),
         char_of (128 + c div 64 mod 64), char_of (128 + c mod 64)])"

definition utf8s :: "pystr \<Rightarrow> bytes" where
  "utf8s s = concat (map utf8 s)"

definition encodable :: "pystr \<Rightarrow> bool" where
  "encodable s = (\<not> list_ex is_surrogate s)"

definition str_encode :: "pystr \<Rightarrow> error + bytes" where
  "str_encode s = (if encodable s then Inr (utf8s s) else Inl UnicodeEncodeError)"

text \<open>Truth value of an optional string: \<^verbatim>\<open>None\<close> and the empty string are false.\<close>

definition truthy :: "pystr option \<Rightarrow> bool" where
  "truthy x = (case x of None \<Rightarrow> False | Some s \<Rightarrow> s \<noteq> [])"

section \<open>XML escaping\<close>

text \<open>
  Modelled from the spec: \<^verbatim>\<open>ParsingUtilities.escape_xml\<close> (in \<^verbatim>\<open>parsing_utilities.py\<close>) is
  not among the sources. The specification says that escaping replaces each of
  \<^verbatim>\<open>&\<close>, \<^verbatim>\<open><\<close>, \<^verbatim>\<open>>\<close>, the double quote and the apostrophe by its XML entity.
\<close>

definition escape_char :: "codepoint \<Rightarrow> pystr" where
  "escape_char c =
     (if c = 38 then lit ''&amp;''
      else if c = 60 then lit ''&lt;''
      else if c = 62 then lit ''&gt;''
      else if c = 34 then lit ''&quot;''
      else if c = 39 then lit ''&apos;''
      else [c])"

definition escape_xml :: "pystr \<Rightarrow> pystr" where
  "escape_xml s = concat (map escape_char s)"

section \<open>The wall clock\<close>

text \<open>
  Every serializer evaluates \<^verbatim>\<open>str(int(round(time.time() * 1000)))\<close>. \<^verbatim>\<open>time.time()\<close> reads
  the process-wide wall clock; it is not an argument of \<^verbatim>\<open>serialize(self)\<close>. The ambient
  state a call runs in is the record \<open>world\<close>, whose field \<open>time_ms\<close> is the value of
  \<^verbatim>\<open>int(round(time.time() * 1000))\<close> at the call (the floating-point product and rounding
  are not modelled further).
\<close>

record world =
  time_ms :: int

definition timestamp :: "'a world_scheme \<Rightarrow> pystr" where
  "timestamp w = str_int (time_ms w)"


section \<open>Outgoing stanzas\<close>

text \<open>
  \<^verbatim>\<open>XMPPElement\<close> (the base class, in \<^verbatim>\<open>base_elements.py\<close>) gives every outgoing element its
  \<^verbatim>\<open>message_id\<close> attribute; the serializers only read it. Each \<^verbatim>\<open>serialize\<close> builds a
  \<^verbatim>\<open>str\<close> in its variable \<^verbatim>\<open>data\<close> and returns \<^verbatim>\<open>data.encode()\<close>; the functions named
  \<open>_data\<close> below are that \<^verbatim>\<open>str\<close>.
\<close>

record XMPPElement =
  message_id :: pystr

subsection \<open>OutgoingChatMessage and OutgoingGroupChatMessage\<close>

record OutgoingChatMessage = XMPPElement +
  peer_jid :: pystr
  body :: pystr
  is_group :: bool
  bot_mention_jid :: "pystr option"

definition OutgoingChatMessage_data :: "'a world_scheme \<Rightarrow> OutgoingChatMessage \<Rightarrow> pystr" where
  "OutgoingChatMessage_data w m =
     (let ts = timestamp w;
          message_type = (if \<not> is_group m then lit ''chat'' else lit ''groupchat'');
          bot_mention_data =
            (if truthy (bot_mention_jid m)
             then lit ''<mention>'' @ lit ''<bot>'' @ format_opt (bot_mention_jid m) @ lit ''</bot>''
                  @ lit ''</mention>''
             else [])
      in lit ''<message type=\"'' @ message_type @ lit ''\" to=\"'' @ OutgoingChatMessage.peer_jid m
         @ lit ''\" id=\"'' @ message_id m @ lit ''\" cts=\"'' @ ts @ lit ''\">''
         @ lit ''<body>'' @ escape_xml (OutgoingChatMessage.body m) @ lit ''</body>''
         @ bot_mention_data
         @ lit ''<preview>'' @ escape_xml (take 20 (OutgoingChatMessage.body m)) @ lit ''</preview>''
         @ lit ''<kik push=\"true\" qos=\"true\" timestamp=\"'' @ ts @ lit ''\" />''
         @ lit ''<request xmlns=\"kik:message:receipt\" r=\"true\" d=\"true\" />''
         @ lit ''<ri></ri>''
         @ lit ''</message>'')"

definition OutgoingChatMessage_serialize ::
  "'a world_scheme \<Rightarrow> OutgoingChatMessage \<Rightarrow> error + bytes" where
  "OutgoingChatMessage_serialize w m = str_encode (OutgoingChatMessage_data w m)"

text \<open>
  The constructor of the subclass; \<open>mid\<close> is the identifier the base constructor assigns.
\<close>

definition OutgoingGroupChatMessage ::
  "pystr \<Rightarrow> pystr \<Rightarrow> pystr \<Rightarrow> pystr option \<Rightarrow> OutgoingChatMessage" where
  "OutgoingGroupChatMessage mid gjid txt bjid =
     \<lparr>message_id = mid, OutgoingChatMessage.peer_jid = gjid, OutgoingChatMessage.body = txt,
      is_group = True, bot_mention_jid = bjid\<rparr>"

subsection \<open>OutgoingReadReceipt\<close>

record OutgoingReadReceipt = XMPPElement +
  peer_jid :: pystr
  receipt_message_id :: pystr
  group_jid :: "pystr option"

definition OutgoingReadReceipt_group_line :: "OutgoingReadReceipt \<Rightarrow> pystr" where
  "OutgoingReadReceipt_group_line r =
     lit ''<g jid=\"'' @ format_opt (OutgoingReadReceipt.group_jid r) @ lit ''\" />''"

definition OutgoingReadReceipt_data :: "'a world_scheme \<Rightarrow> OutgoingReadReceipt \<Rightarrow> pystr" where
  "OutgoingReadReceipt_data w r =
     (let ts = timestamp w;
          group_line = OutgoingReadReceipt_group_line r;
          data = lit ''<message type=\"receipt\" id=\"'' @ message_id r
               @ lit ''\" to=\"'' @ OutgoingReadReceipt.peer_jid r
               @ lit ''\" cts=\"'' @ ts @ lit ''\">''
               @ lit ''<kik push=\"false\" qos=\"true\" timestamp=\"'' @ ts @ lit ''\" />''
               @ lit ''<receipt xmlns=\"kik:message:receipt\" type=\"read\">''
               @ lit ''<msgid id=\"'' @ OutgoingReadReceipt.receipt_message_id r @ lit ''\" />''
               @ lit ''</receipt>''
      in if py_in (lit ''groups'') group_line
         then data @ group_line @ lit ''</message>''
         else data @ lit ''</message>'')"

definition OutgoingReadReceipt_serialize ::
  "'a world_scheme \<Rightarrow> OutgoingReadReceipt \<Rightarrow> error + bytes" where
  "OutgoingReadReceipt_serialize w r = str_encode (OutgoingReadReceipt_data w r)"

text \<open>
  A stanza text holds a group-identifier sub-element when the text \<^verbatim>\<open><g jid=\<close> occurs
  in it.
\<close>

definition has_group_element :: "pystr \<Rightarrow> bool" where
  "has_group_element data = py_in (lit ''<g jid='') data"

subsection \<open>OutgoingDeliveredReceipt\<close>

record OutgoingDeliveredReceipt = XMPPElement +
  peer_jid :: pystr
  receipt_message_id :: pystr

definition OutgoingDeliveredReceipt_data ::
  "'a world_scheme \<Rightarrow> OutgoingDeliveredReceipt \<Rightarrow> pystr" where
  "OutgoingDeliveredReceipt_data w r =
     (let ts = timestamp w
      in lit ''<message type=\"receipt\" id=\"'' @ message_id r
         @ lit ''\" to=\"'' @ OutgoingDeliveredReceipt.peer_jid r
         @ lit ''\" cts=\"'' @ ts @ lit ''\">''
         @ lit ''<kik push=\"false\" qos=\"true\" timestamp=\"'' @ ts @ lit ''\" />''
         @ lit ''<receipt xmlns=\"kik:message:receipt\" type=\"delivered\">''
         @ lit ''<msgid id=\"'' @ OutgoingDeliveredReceipt.receipt_message_id r @ lit ''\" />''
         @ lit ''</receipt>''
         @ lit ''</message>'')"

definition OutgoingDeliveredReceipt_serialize ::
  "'a world_scheme \<Rightarrow> OutgoingDeliveredReceipt \<Rightarrow> error + bytes" where
  "OutgoingDeliveredReceipt_serialize w r = str_encode (OutgoingDeliveredReceipt_data w r)"

subsection \<open>OutgoingIsTypingEvent and OutgoingGroupIsTypingEvent\<close>

record OutgoingIsTypingEvent = XMPPElement +
  peer_jid :: pystr
  is_typing :: bool

definition OutgoingIsTypingEvent_data ::
  "'a world_scheme \<Rightarrow> OutgoingIsTypingEvent \<Rightarrow> pystr" where
  "OutgoingIsTypingEvent_data w e =
     (let ts = timestamp w
      in lit ''<message type=\"chat\" to=\"'' @ OutgoingIsTypingEvent.peer_jid e
         @ lit ''\" id=\"'' @ message_id e @ lit ''\">''
         @ lit ''<kik push=\"false\" qos=\"false\" timestamp=\"'' @ ts @ lit ''\" />''
         @ lit ''<is-typing val=\"'' @ str_bool_lower (OutgoingIsTypingEvent.is_typing e)
         @ lit ''\" />''
         @ lit ''</message>'')"

definition OutgoingIsTypingEvent_serialize ::
  "'a world_scheme \<Rightarrow> OutgoingIsTypingEvent \<Rightarrow> error + bytes" where
  "OutgoingIsTypingEvent_serialize w e = str_encode (OutgoingIsTypingEvent_data w e)"

text \<open>
  \<^verbatim>\<open>OutgoingGroupIsTypingEvent\<close> has the same two attributes; its constructor stores the group
  identifier in \<^verbatim>\<open>peer_jid\<close>.
\<close>

record OutgoingGroupIsTypingEvent = XMPPElement +
  peer_jid :: pystr
  is_typing :: bool

definition OutgoingGroupIsTypingEvent_data ::
  "'a world_scheme \<Rightarrow> OutgoingGroupIsTypingEvent \<Rightarrow> pystr" where
  "OutgoingGroupIsTypingEvent_data w e =
     (let ts = timestamp w
      in lit ''<message type=\"groupchat\" to=\"'' @ OutgoingGroupIsTypingEvent.peer_jid e
         @ lit ''\" id=\"'' @ message_id e @ lit ''\">''
         @ lit ''<pb></pb>''
         @ lit ''<kik push=\"false\" qos=\"false\" timestamp=\"'' @ ts @ lit ''\" />''
         @ lit ''<is-typing val=\"'' @ str_bool_lower (OutgoingGroupIsTypingEvent.is_typing e)
         @ lit ''\" />''
         @ lit ''</message>'')"

definition OutgoingGroupIsTypingEvent_serialize ::
  "'a world_scheme \<Rightarrow> OutgoingGroupIsTypingEvent \<Rightarrow> error + bytes" where
  "OutgoingGroupIsTypingEvent_serialize w e = str_encode (OutgoingGroupIsTypingEvent_data w e)"

subsection \<open>OutgoingLinkShareEvent\<close>

record OutgoingLinkShareEvent = XMPPElement +
  peer_jid :: pystr
  link :: pystr
  title :: pystr
  text' :: pystr
  app_name :: pystr

text \<open>The first format argument: the \<^verbatim>\<open>type\<close> attribute, with the namespace for a group.\<close>

definition OutgoingLinkShareEvent_message_type :: "OutgoingLinkShareEvent \<Rightarrow> pystr" where
  "OutgoingLinkShareEvent_message_type e =
     (if py_in (lit ''group'') (OutgoingLinkShareEvent.peer_jid e)
      then lit ''type=\"groupchat\" xmlns=\"kik:groups\"''
      else lit ''type=\"chat\"'')"

definition OutgoingLinkShareEvent_data ::
  "'a world_scheme \<Rightarrow> OutgoingLinkShareEvent \<Rightarrow> pystr" where
  "OutgoingLinkShareEvent_data w e =
     (let message_type = OutgoingLinkShareEvent_message_type e;
          ts = timestamp w
      in lit ''<message '' @ message_type @ lit '' to=\"'' @ OutgoingLinkShareEvent.peer_jid e
         @ lit ''\" id=\"'' @ message_id e @ lit ''\" cts=\"'' @ ts @ lit ''\">''
         @ lit ''<pb></pb>''
         @ lit ''<kik push=\"true\" qos=\"true\" timestamp=\"'' @ ts @ lit ''\" />''
         @ lit ''<request xmlns=\"kik:message:receipt\" r=\"true\" d=\"true\" />''
         @ lit ''<content id=\"'' @ message_id e @ lit ''\" app-id=\"com.kik.cards\" v=\"2\">''
         @ lit ''<strings>''
         @ lit ''<app-name>'' @ app_name e @ lit ''</app-name>''
         @ lit ''<layout>article</layout>''
         @ lit ''<title>'' @ title e @ lit ''</title>''
         @ lit ''<text>'' @ text' e @ lit ''</text>''
         @ lit ''<allow-forward>true</allow-forward>''
         @ lit ''</strings>''
         @ lit ''<extras />''
         @ lit ''<hashes />''
         @ lit ''<images>''
         @ lit ''</images>''
         @ lit ''<uris>''
         @ lit ''<uri platform=\"cards\">'' @ link e @ lit ''</uri>''
         @ lit ''<uri></uri>''
         @ lit ''<uri>http://cdn.kik.com/cards/unsupported.html</uri>''
         @ lit ''</uris>''
         @ lit ''</content>''
         @ lit ''</message>'')"

definition OutgoingLinkShareEvent_serialize ::
  "'a world_scheme \<Rightarrow> OutgoingLinkShareEvent \<Rightarrow> error + bytes" where
  "OutgoingLinkShareEvent_serialize w e = str_encode (OutgoingLinkShareEvent_data w e)"

subsection \<open>Arguments and the state of the world\<close>

text \<open>
  Every \<^verbatim>\<open>serialize(self)\<close> has the element, with its attributes and its message identifier,
  as its only argument; a call has nowhere to pass a clock value. The functions above take
  the state of the world as a further argument because the method reads it. The result of
  a method is determined by the arguments of the call when it is the same in every state
  of the world, that is, when no hidden state such as the wall clock takes part in it.
\<close>

definition determined_by_arguments :: "(world \<Rightarrow> 'e \<Rightarrow> error + bytes) \<Rightarrow> bool" where
  "determined_by_arguments serialize = (\<forall>w w' e. serialize w e = serialize w' e)"

section \<open>Parsed stanzas\<close>

text \<open>
  The decoders receive a tree built by BeautifulSoup. A node is a \<^verbatim>\<open>Tag\<close> (name, attribute
  dictionary, children) or a \<^verbatim>\<open>NavigableString\<close>. The attribute dictionary is an
  association list read with \<open>map_of\<close>.
\<close>

datatype node =
    Tag pystr "(pystr \<times> pystr) list" "node list"
  | NavigableString pystr

text \<open>\<^verbatim>\<open>tag.descendants\<close>: every node below the tag, in document order.\<close>

fun descendants :: "node \<Rightarrow> node list" where
  "descendants (Tag n a cs) = concat (map (\<lambda>c. c # descendants c) cs)"
| "descendants (NavigableString s) = []"

text \<open>\<^verbatim>\<open>tag.contents\<close>, which is also what iterating over a tag yields.\<close>

fun children :: "node \<Rightarrow> node list" where
  "children (Tag n a cs) = cs"
| "children (NavigableString s) = []"

text \<open>\<^verbatim>\<open>tag.attrs\<close>, the attribute dictionary.\<close>

fun attrs_of :: "node \<Rightarrow> (pystr \<times> pystr) list" where
  "attrs_of (Tag n a cs) = a"
| "attrs_of (NavigableString s) = []"

fun is_tag_named :: "pystr \<Rightarrow> node \<Rightarrow> bool" where
  "is_tag_named n (Tag m a cs) = (m = n)"
| "is_tag_named n (NavigableString s) = False"

text \<open>
  \<^verbatim>\<open>tag.findAll(name)\<close> searches the descendants; \<^verbatim>\<open>tag.find(name)\<close>, and the attribute
  access \<^verbatim>\<open>tag.name\<close>, is its first result or \<^verbatim>\<open>None\<close>; \<^verbatim>\<open>tag.find(name, recursive=False)\<close>
  searches the children only.
\<close>

definition findAll :: "node \<Rightarrow> pystr \<Rightarrow> node list" where
  "findAll t n = filter (is_tag_named n) (descendants t)"

definition find_tag :: "node \<Rightarrow> pystr \<Rightarrow> node option" where
  "find_tag t n = (case findAll t n of [] \<Rightarrow> None | x # xs \<Rightarrow> Some x)"

definition find_nonrecursive :: "node \<Rightarrow> pystr \<Rightarrow> node option" where
  "find_nonrecursive t n =
     (case filter (is_tag_named n) (children t) of [] \<Rightarrow> None | x # xs \<Rightarrow> Some x)"

text \<open>\<^verbatim>\<open>node.text\<close>: all the strings below the node, concatenated.\<close>

fun get_text :: "node \<Rightarrow> pystr" where
  "get_text (Tag n a cs) = concat (map get_text cs)"
| "get_text (NavigableString s) = s"

text \<open>
  \<^verbatim>\<open>node.string\<close>: the string of a tag with exactly one child, when that child is a string
  or has a \<^verbatim>\<open>.string\<close> itself; \<^verbatim>\<open>None\<close> otherwise.
\<close>

fun string_of :: "node \<Rightarrow> pystr option" where
  "string_of (NavigableString s) = Some s"
| "string_of (Tag n a [c]) = string_of c"
| "string_of (Tag n a cs) = None"

text \<open>
  \<^verbatim>\<open>node[key]\<close>: the attribute of a tag, \<^verbatim>\<open>KeyError\<close> when it has none of that name;
  indexing a string or \<^verbatim>\<open>None\<close> with a string key is a \<^verbatim>\<open>TypeError\<close>.
\<close>

fun getitem :: "node \<Rightarrow> pystr \<Rightarrow> error + pystr" where
  "getitem (Tag n a cs) k = (case map_of a k of None \<Rightarrow> Inl (KeyError k) | Some v \<Rightarrow> Inr v)"
| "getitem (NavigableString s) k = Inl TypeError"

definition getitem_opt :: "node option \<Rightarrow> pystr \<Rightarrow> error + pystr" where
  "getitem_opt x k = (case x of None \<Rightarrow> Inl TypeError | Some t \<Rightarrow> getitem t k)"

text \<open>A list comprehension whose element expression can raise.\<close>

fun emap :: "('a \<Rightarrow> error + 'b) \<Rightarrow> 'a list \<Rightarrow> error + 'b list" where
  "emap f [] = Inr []"
| "emap f (x # xs) = ebind (f x) (\<lambda>y. ebind (emap f xs) (\<lambda>ys. Inr (y # ys)))"

section \<open>Incoming stanzas\<close>

text \<open>
  Every decoder is the constructor of a subclass of \<^verbatim>\<open>XMPPResponse\<close> and first calls
  \<^verbatim>\<open>super().__init__(data)\<close>. That base constructor (in \<^verbatim>\<open>base_elements.py\<close>) is not among
  the sources, so it is the parameter \<open>XMPPResponse_init\<close>: it may raise, and the attributes
  it sets are not part of the records below.
\<close>

subsection \<open>IncomingChatMessage and IncomingGroupChatMessage\<close>

record IncomingChatMessage =
  request_delivered_receipt :: bool
  request_read_receipt :: bool
  status :: "pystr option"
  preview :: "pystr option"
  from_jid :: pystr
  to_jid :: pystr
  body :: "pystr option"
  is_typing :: "bool option"

text \<open>\<^verbatim>\<open>data.request[k] == 'true' if data.request else False\<close>\<close>

definition request_attr_true :: "node \<Rightarrow> pystr \<Rightarrow> error + bool" where
  "request_attr_true data k =
     (case find_tag data (lit ''request'') of
        None \<Rightarrow> Inr False
      | Some request \<Rightarrow> ebind (getitem request k) (\<lambda>v. Inr (v = lit ''true'')))"

definition IncomingChatMessage_init ::
  "(node \<Rightarrow> error + unit) \<Rightarrow> node \<Rightarrow> error + IncomingChatMessage" where
  "IncomingChatMessage_init XMPPResponse_init data =
     ebind (XMPPResponse_init data) (\<lambda>_.
     ebind (request_attr_true data (lit ''d'')) (\<lambda>rd.
     ebind (request_attr_true data (lit ''r'')) (\<lambda>rr.
     ebind (getitem data (lit ''from'')) (\<lambda>fj.
     ebind (getitem data (lit ''to'')) (\<lambda>tj.
     ebind (case find_tag data (lit ''is-typing'') of
              None \<Rightarrow> Inr None
            | Some t \<Rightarrow> ebind (getitem t (lit ''val'')) (\<lambda>v. Inr (Some (v = lit ''true''))))
       (\<lambda>ty.
     Inr \<lparr>request_delivered_receipt = rd,
          request_read_receipt = rr,
          status = map_option get_text (find_tag data (lit ''status'')),
          preview = map_option get_text (find_tag data (lit ''preview'')),
          from_jid = fj,
          to_jid = tj,
          body = map_option get_text (find_nonrecursive data (lit ''body'')),
          is_typing = ty\<rparr>))))))"

record IncomingGroupChatMessage = IncomingChatMessage +
  group_jid :: pystr

definition IncomingGroupChatMessage_init ::
  "(node \<Rightarrow> error + unit) \<Rightarrow> node \<Rightarrow> error + IncomingGroupChatMessage" where
  "IncomingGroupChatMessage_init XMPPResponse_init data =
     ebind (IncomingChatMessage_init XMPPResponse_init data) (\<lambda>m.
     let g = find_nonrecursive data (lit ''g'') in
     ebind (getitem_opt g (lit ''jid'')) (\<lambda>gj.
     Inr (IncomingChatMessage.extend m (IncomingGroupChatMessage.fields gj))))"

subsection \<open>IncomingGroupReceiptsEvent\<close>

record IncomingGroupReceiptsEvent =
  from_jid :: pystr
  to_jid :: pystr
  group_jid :: pystr
  receipt_ids :: "pystr list"
  type' :: pystr


subsection \<open>IncomingGroupSticker\<close>

record Uri =
  platform :: pystr
  url :: pystr

definition Uri_init :: "node \<Rightarrow> error + Uri" where
  "Uri_init uri =
     ebind (getitem uri (lit ''platform'')) (\<lambda>p. Inr \<lparr>platform = p, url = get_text uri\<rparr>)"

record IncomingGroupSticker =
  from_jid :: pystr
  group_jid :: pystr
  sticker_pack_id :: "pystr option"
  sticker_url :: "pystr option"
  sticker_id :: "pystr option"
  sticker_source :: "pystr option"
  png_preview :: "pystr option"
  uris :: "Uri list"

text \<open>
  The dictionary \<^verbatim>\<open>extras_map\<close>. Its keys are the values of \<^verbatim>\<open>item.key.string\<close>, which can be
  \<^verbatim>\<open>None\<close>.
\<close>

type_synonym extras_map = "pystr option \<rightharpoonup> pystr"

text \<open>
  The loop of \<^verbatim>\<open>parse_extras\<close> over the items found, with the dictionary built so far.
  The right-hand side \<^verbatim>\<open>item.val.text\<close> is evaluated before the key \<^verbatim>\<open>item.key.string\<close>;
  a missing \<^verbatim>\<open>val\<close> or \<^verbatim>\<open>key\<close> element is an attribute access on \<^verbatim>\<open>None\<close>.
\<close>

fun parse_extras_loop :: "node list \<Rightarrow> extras_map \<Rightarrow> error + extras_map" where
  "parse_extras_loop [] extras_map = Inr extras_map"
| "parse_extras_loop (item # items) extras_map =
     (case find_tag item (lit ''val'') of
        None \<Rightarrow> Inl AttributeError
      | Some val \<Rightarrow>
          (case find_tag item (lit ''key'') of
             None \<Rightarrow> Inl AttributeError
           | Some key \<Rightarrow> parse_extras_loop items (extras_map(string_of key \<mapsto> get_text val))))"

definition parse_extras :: "node option \<Rightarrow> error + extras_map" where
  "parse_extras extras =
     (case extras of
        None \<Rightarrow> Inl AttributeError
      | Some e \<Rightarrow> parse_extras_loop (findAll e (lit ''item'')) Map.empty)"

text \<open>
  The key and value that one \<^verbatim>\<open>item\<close> contributes to the dictionary, when it has both a
  \<^verbatim>\<open>val\<close> and a \<^verbatim>\<open>key\<close> element.
\<close>

definition item_pair :: "node \<Rightarrow> (pystr option \<times> pystr) option" where
  "item_pair item =
     (case find_tag item (lit ''val'') of
        None \<Rightarrow> None
      | Some val \<Rightarrow>
          (case find_tag item (lit ''key'') of
             None \<Rightarrow> None
           | Some key \<Rightarrow> Some (string_of key, get_text val)))"

text \<open>\<^verbatim>\<open>extras_map[k] if k in extras_map else None\<close>\<close>

definition extras_get :: "extras_map \<Rightarrow> pystr \<Rightarrow> pystr option" where
  "extras_get extras_map k = (if extras_map (Some k) \<noteq> None then extras_map (Some k) else None)"

definition IncomingGroupSticker_init ::
  "(node \<Rightarrow> error + unit) \<Rightarrow> node \<Rightarrow> error + IncomingGroupSticker" where
  "IncomingGroupSticker_init XMPPResponse_init data =
     ebind (XMPPResponse_init data) (\<lambda>_.
     case find_tag data (lit ''content'') of
       None \<Rightarrow> Inl AttributeError
     | Some content \<Rightarrow>
     ebind (parse_extras (find_tag content (lit ''extras''))) (\<lambda>extras_map.
     ebind (getitem data (lit ''from'')) (\<lambda>fj.
     ebind (getitem_opt (find_tag data (lit ''g'')) (lit ''jid'')) (\<lambda>gj.
     ebind (case find_tag content (lit ''images'') of
              None \<Rightarrow> Inl AttributeError
            | Some images \<Rightarrow> Inr (map_option get_text (find_tag images (lit ''png-preview''))))
       (\<lambda>pp.
     ebind (case find_tag content (lit ''uris'') of
              None \<Rightarrow> Inl TypeError
            | Some us \<Rightarrow> emap Uri_init (children us))
       (\<lambda>us.
     Inr \<lparr>IncomingGroupSticker.from_jid = fj,
          IncomingGroupSticker.group_jid = gj,
          sticker_pack_id = extras_get extras_map (lit ''sticker_pack_id''),
          sticker_url = extras_get extras_map (lit ''sticker_url''),
          sticker_id = extras_get extras_map (lit ''sticker_id''),
          sticker_source = extras_get extras_map (lit ''sticker_source''),
          png_preview = pp,
          uris = us\<rparr>))))))"

subsection \<open>What an exception names\<close>

text \<open>
  Of the exceptions of this model only a \<^verbatim>\<open>KeyError\<close> carries a name from the stanza, the
  key that was looked up. The \<^verbatim>\<open>TypeError\<close> of \<^verbatim>\<open>None[key]\<close> has the fixed message
  \<^verbatim>\<open>'NoneType' object is not subscriptable\<close>.
\<close>

definition names_element :: "error \<Rightarrow> pystr \<Rightarrow> bool" where
  "names_element e n = (e = KeyError n)"

section \<open>Concrete inputs\<close>

text \<open>The inputs at which the statements below are evaluated.\<close>

definition example_world :: world where
  "example_world = \<lparr>time_ms = 1541376000123\<rparr>"

definition example_receipt :: "pystr option \<Rightarrow> OutgoingReadReceipt" where
  "example_receipt g =
     \<lparr>message_id = lit ''a1b2'', OutgoingReadReceipt.peer_jid = lit ''bob_x1@talk.kik.com'',
      OutgoingReadReceipt.receipt_message_id = lit ''c3d4'',
      OutgoingReadReceipt.group_jid = g\<rparr>"

definition example_chat :: "pystr \<Rightarrow> OutgoingChatMessage" where
  "example_chat b =
     \<lparr>message_id = lit ''a1b2'', OutgoingChatMessage.peer_jid = lit ''bob_x1@talk.kik.com'',
      OutgoingChatMessage.body = b, is_group = False, bot_mention_jid = None\<rparr>"

definition example_delivered :: "pystr \<Rightarrow> OutgoingDeliveredReceipt" where
  "example_delivered mid =
     \<lparr>message_id = mid, OutgoingDeliveredReceipt.peer_jid = lit ''bob_x1@talk.kik.com'',
      OutgoingDeliveredReceipt.receipt_message_id = lit ''c3d4''\<rparr>"

definition example_link :: "pystr \<Rightarrow> OutgoingLinkShareEvent" where
  "example_link peer =
     \<lparr>message_id = lit ''a1b2'', OutgoingLinkShareEvent.peer_jid = peer,
      link = lit ''https://kik.com'', title = lit ''Kik'', text' = lit ''hello'',
      app_name = lit ''Web''\<rparr>"

definition example_body :: pystr where
  "example_body = lit ''caf'' @ [233] @ lit '' <b>'' @ [8364] @ lit ''5</b> & '' @ [128512]
     @ lit '' see you at 8''"

definition example_world_later :: world where
  "example_world_later = \<lparr>time_ms = 1541376060000\<rparr>"

definition example_typing :: OutgoingIsTypingEvent where
  "example_typing =
     \<lparr>message_id = lit ''a1b2'', OutgoingIsTypingEvent.peer_jid = lit ''bob_x1@talk.kik.com'',
      OutgoingIsTypingEvent.is_typing = True\<rparr>"

definition example_group_typing :: OutgoingGroupIsTypingEvent where
  "example_group_typing =
     \<lparr>message_id = lit ''a1b2'',
      OutgoingGroupIsTypingEvent.peer_jid = lit ''1100221_g@groups.kik.com'',
      OutgoingGroupIsTypingEvent.is_typing = False\<rparr>"

text \<open>A base constructor that raises nothing.\<close>

definition no_base :: "node \<Rightarrow> error + unit" where
  "no_base data = Inr ()"

definition example_chat_stanza :: "(pystr \<times> pystr) list \<Rightarrow> node list \<Rightarrow> node" where
  "example_chat_stanza request_attrs extra =
     Tag (lit ''message'')
       [(lit ''from'', lit ''alice_y2@talk.kik.com''), (lit ''to'', lit ''bob_x1@talk.kik.com''),
        (lit ''id'', lit ''e5f6''), (lit ''type'', lit ''chat'')]
       ([Tag (lit ''body'') [] [NavigableString (lit ''hi'')],
         Tag (lit ''request'') request_attrs []] @ extra)"

definition example_g :: node where
  "example_g = Tag (lit ''g'') [(lit ''jid'', lit ''1100221_g@groups.kik.com'')] []"


definition example_item :: "string \<Rightarrow> string \<Rightarrow> node" where
  "example_item k v =
     Tag (lit ''item'') []
       [Tag (lit ''key'') [] [NavigableString (lit k)],
        Tag (lit ''val'') [] [NavigableString (lit v)]]"

definition example_sticker_stanza :: "node list \<Rightarrow> node" where
  "example_sticker_stanza items =
     Tag (lit ''message'')
       [(lit ''from'', lit ''alice_y2@talk.kik.com''), (lit ''to'', lit ''bob_x1@talk.kik.com''),
        (lit ''type'', lit ''groupchat'')]
       [example_g,
        Tag (lit ''content'') [(lit ''app-id'', lit ''com.kik.ext.stickers'')]
          [Tag (lit ''extras'') [] items,
           Tag (lit ''images'') []
             [Tag (lit ''png-preview'') [] [NavigableString (lit ''iVBORw0KGgo='')]],
           Tag (lit ''uris'') []
             [Tag (lit ''uri'') [(lit ''platform'', lit ''cards'')]
                [NavigableString (lit ''https://stickers.kik.com/abc/7.png'')]]]]"

definition example_extras :: node where
  "example_extras =
     Tag (lit ''extras'') []
       [example_item ''sticker_id'' ''5'', example_item ''campaign'' ''spring'',
        example_item ''sticker_id'' ''7'']"

definition example_sticker :: IncomingGroupSticker where
  "example_sticker =
     \<lparr>IncomingGroupSticker.from_jid = lit ''alice_y2@talk.kik.com'',
      IncomingGroupSticker.group_jid = lit ''1100221_g@groups.kik.com'',
      sticker_pack_id = Some (lit ''abc''),
      sticker_url = None,
      sticker_id = Some (lit ''7''),
      sticker_source = None,
      png_preview = Some (lit ''iVBORw0KGgo=''),
      uris = [\<lparr>platform = lit ''cards'', url = lit ''https://stickers.kik.com/abc/7.png''\<rparr>]\<rparr>"


section \<open>Facts about strings\<close>

lemma startswith_iff: "startswith s p \<longleftrightarrow> (\<exists>ss. s = p @ ss)"
  by (induction s p rule: startswith.induct) auto

text \<open>\<open>py_in\<close> is the substring relation.\<close>

lemma py_in_iff: "py_in sub s \<longleftrightarrow> (\<exists>ps ss. s = ps @ sub @ ss)"
proof (induction s)
  case Nil
  then show ?case by auto
next
  case (Cons c cs)
  show ?case
  proof
    assume "py_in sub (c # cs)"
    then consider "startswith (c # cs) sub" | "py_in sub cs" by auto
    then show "\<exists>ps ss. c # cs = ps @ sub @ ss"
    proof cases
      case 1
      then obtain ss where "c # cs = sub @ ss" by (auto simp: startswith_iff)
      then have "c # cs = [] @ sub @ ss" by simp
      then show ?thesis by blast
    next
      case 2
      then obtain ps ss where "cs = ps @ sub @ ss" using Cons.IH by blast
      then have "c # cs = (c # ps) @ sub @ ss" by simp
      then show ?thesis by blast
    qed
  next
    assume "\<exists>ps ss. c # cs = ps @ sub @ ss"
    then obtain ps ss where eq: "c # cs = ps @ sub @ ss" by blast
    show "py_in sub (c # cs)"
    proof (cases ps)
      case Nil
      then have "startswith (c # cs) sub" using eq by (auto simp: startswith_iff)
      then show ?thesis by simp
    next
      case (Cons p ps')
      then have "cs = ps' @ sub @ ss" using eq by simp
      then have "py_in sub cs" using Cons.IH by blast
      then show ?thesis by simp
    qed
  qed
qed

text \<open>A match cannot begin inside a part that lacks the first character of the pattern.\<close>

lemma py_in_skip: "c \<notin> set a \<Longrightarrow> py_in (c # n) (a @ b) = py_in (c # n) b"
  by (induction a) auto


lemma startswith_snoc: "c \<notin> set p \<Longrightarrow> startswith (s @ [c]) p = startswith s p"
  by (induction s p rule: startswith.induct) auto

text \<open>Nor can it end in a trailing character that the pattern does not contain.\<close>

lemma py_in_snoc: "c \<notin> set n \<Longrightarrow> n \<noteq> [] \<Longrightarrow> py_in n (s @ [c]) = py_in n s"
proof (induction s)
  case Nil
  then show ?case by (cases n) auto
next
  case (Cons x s)
  have "startswith ((x # s) @ [c]) n = startswith (x # s) n"
    using Cons.prems(1) by (rule startswith_snoc)
  then show ?case using Cons by simp
qed

lemma py_in_append_right: "py_in n b \<Longrightarrow> py_in n (a @ b)"
  by (induction a) auto

lemma py_in_append_left: "py_in n a \<Longrightarrow> py_in n (a @ b)"
proof -
  assume "py_in n a"
  then obtain ps ss where "a = ps @ n @ ss" by (auto simp: py_in_iff)
  then have "a @ b = ps @ n @ (ss @ b)" by simp
  then show ?thesis unfolding py_in_iff by blast
qed

lemma lit_append: "lit (a @ b) = lit a @ lit b"
  by (simp add: lit_def)

subsection \<open>Decimal rendering\<close>

lemma digits10_numeral:
  "digits10 (numeral k) =
     (if (numeral k :: nat) < 10 then [48 + numeral k]
      else digits10 (numeral k div 10) @ [48 + numeral k mod 10])"
  by (rule digits10.simps)

lemma digits10_small: "digits10 0 = [48]" "digits10 (Suc 0) = [49]"
  by (simp_all add: digits10.simps)

lemma digits10_range: "x \<in> set (digits10 n) \<Longrightarrow> 48 \<le> x \<and> x \<le> 57"
proof (induction n arbitrary: x rule: digits10.induct)
  case (1 n)
  show ?case
  proof (cases "n < 10")
    case True
    then show ?thesis using "1.prems" by (simp add: digits10.simps [of n])
  next
    case False
    then have "x \<in> set (digits10 (n div 10)) \<or> x = 48 + n mod 10"
      using "1.prems" by (auto simp add: digits10.simps [of n])
    then show ?thesis
    proof
      assume "x \<in> set (digits10 (n div 10))"
      then show ?thesis using "1.IH" False by simp
    next
      assume "x = 48 + n mod 10"
      then show ?thesis by simp
    qed
  qed
qed

lemma str_int_range: "x \<in> set (str_int i) \<Longrightarrow> x = 45 \<or> (48 \<le> x \<and> x \<le> 57)"
  by (auto simp: str_int_def dest: digits10_range split: if_splits)

lemma timestamp_no_lt: "60 \<notin> set (timestamp w)"
  using str_int_range [of 60 "time_ms w"] by (auto simp: timestamp_def)

lemma example_timestamp: "timestamp example_world = lit ''1541376000123''"
  by (simp add: timestamp_def example_world_def str_int_def digits10_numeral digits10_small
      lit_def)

lemma example_timestamp_later: "timestamp example_world_later = lit ''1541376060000''"
  by (simp add: timestamp_def example_world_later_def str_int_def digits10_numeral digits10_small
      lit_def)

subsection \<open>Encoding\<close>

lemma utf8_ascii: "of_char c < (128::nat) \<Longrightarrow> utf8 (of_char c) = [c]"
  by (simp add: utf8_def)

lemma encode_lit:
  assumes "\<forall>c\<in>set s. of_char c < (128::nat)"
  shows "str_encode (lit s) = Inr s"
proof -
  have "utf8s (lit s) = s"
    using assms by (induction s) (simp_all add: lit_def utf8s_def utf8_ascii)
  moreover have "encodable (lit s)"
    using assms by (induction s) (simp_all add: lit_def encodable_def is_surrogate_def)
  ultimately show ?thesis by (simp add: str_encode_def)
qed

lemma encodable_Nil: "encodable []"
  by (simp add: encodable_def)

lemma encodable_Cons: "encodable (c # s) \<longleftrightarrow> \<not> is_surrogate c \<and> encodable s"
  by (simp add: encodable_def)

lemma encodable_append: "encodable (a @ b) \<longleftrightarrow> encodable a \<and> encodable b"
  by (induction a) (auto simp: encodable_def)

lemma of_char_lt_256: "of_char c < (256::nat)"
  by (cases c) (simp add: of_char_Char)



lemma encodable_lit: "encodable (lit s)"
proof -
  have "\<not> is_surrogate (of_char c)" for c
    unfolding is_surrogate_def using of_char_lt_256 [of c] by linarith
  then show ?thesis by (induction s) (simp_all add: lit_def encodable_def)
qed

lemma encodable_timestamp: "encodable (timestamp w)"
proof -
  have "\<not> is_surrogate x" if "x \<in> set (timestamp w)" for x
    using str_int_range [of x "time_ms w"] that by (auto simp: timestamp_def is_surrogate_def)
  then show ?thesis by (auto simp: encodable_def list_ex_iff)
qed

lemma encodable_escape_char: "encodable (escape_char c) \<longleftrightarrow> \<not> is_surrogate c"
  by (simp add: escape_char_def encodable_lit encodable_Cons encodable_Nil is_surrogate_def)

lemma encodable_escape_xml: "encodable (escape_xml s) \<longleftrightarrow> encodable s"
  by (induction s) (simp_all add: escape_xml_def encodable_append encodable_Cons encodable_Nil encodable_escape_char)

lemma encodable_take: "encodable s \<Longrightarrow> encodable (take n s)"
  by (auto simp: encodable_def list_ex_iff dest: in_set_takeD)

lemma encodable_str_bool_lower: "encodable (str_bool_lower b)"
  by (simp add: str_bool_lower_def encodable_lit)

lemma utf8s_append: "utf8s (a @ b) = utf8s a @ utf8s b"
  by (simp add: utf8s_def)

lemma escape_xml_append: "escape_xml (a @ b) = escape_xml a @ escape_xml b"
  by (simp add: escape_xml_def)

lemma escape_xml_take_drop: "escape_xml s = escape_xml (take n s) @ escape_xml (drop n s)"
  by (simp add: escape_xml_append [symmetric])

subsection \<open>Serializers that cannot fail on encodable fields\<close>

lemma suffix_exI: "x = pre @ y \<Longrightarrow> \<exists>p. x = p @ y"
  by blast

lemma OutgoingChatMessage_serialize_ok:
  assumes "encodable (message_id m)" and "encodable (OutgoingChatMessage.peer_jid m)"
    and "encodable (OutgoingChatMessage.body m)"
    and "\<forall>b. bot_mention_jid m = Some b \<longrightarrow> encodable b"
  shows "OutgoingChatMessage_serialize w m = Inr (utf8s (OutgoingChatMessage_data w m))"
proof -
  have "encodable (format_opt (bot_mention_jid m))"
    using assms(4) by (cases "bot_mention_jid m") (simp_all add: format_opt_def encodable_lit)
  then have "encodable (OutgoingChatMessage_data w m)"
    using assms(1-3)
    by (simp add: OutgoingChatMessage_data_def Let_def encodable_append encodable_lit
        encodable_timestamp encodable_escape_xml encodable_take encodable_Nil)
  then show ?thesis by (simp add: OutgoingChatMessage_serialize_def str_encode_def)
qed

lemma OutgoingReadReceipt_serialize_ok:
  assumes "encodable (message_id r)" and "encodable (OutgoingReadReceipt.peer_jid r)"
    and "encodable (OutgoingReadReceipt.receipt_message_id r)"
    and "\<forall>g. OutgoingReadReceipt.group_jid r = Some g \<longrightarrow> encodable g"
  shows "OutgoingReadReceipt_serialize w r = Inr (utf8s (OutgoingReadReceipt_data w r))"
proof -
  have "encodable (format_opt (OutgoingReadReceipt.group_jid r))"
    using assms(4) by (cases "OutgoingReadReceipt.group_jid r") (simp_all add: format_opt_def encodable_lit)
  then have "encodable (OutgoingReadReceipt_data w r)"
    using assms(1-3)
    by (simp add: OutgoingReadReceipt_data_def OutgoingReadReceipt_group_line_def Let_def
        encodable_append encodable_lit encodable_timestamp)
  then show ?thesis by (simp add: OutgoingReadReceipt_serialize_def str_encode_def)
qed

lemma OutgoingDeliveredReceipt_serialize_ok:
  assumes "encodable (message_id r)" and "encodable (OutgoingDeliveredReceipt.peer_jid r)"
    and "encodable (OutgoingDeliveredReceipt.receipt_message_id r)"
  shows "OutgoingDeliveredReceipt_serialize w r = Inr (utf8s (OutgoingDeliveredReceipt_data w r))"
proof -
  have "encodable (OutgoingDeliveredReceipt_data w r)"
    using assms
    by (simp add: OutgoingDeliveredReceipt_data_def Let_def
        encodable_append encodable_lit encodable_timestamp)
  then show ?thesis by (simp add: OutgoingDeliveredReceipt_serialize_def str_encode_def)
qed

lemma OutgoingIsTypingEvent_serialize_ok:
  assumes "encodable (message_id e)" and "encodable (OutgoingIsTypingEvent.peer_jid e)"
  shows "OutgoingIsTypingEvent_serialize w e = Inr (utf8s (OutgoingIsTypingEvent_data w e))"
proof -
  have "encodable (OutgoingIsTypingEvent_data w e)"
    using assms
    by (simp add: OutgoingIsTypingEvent_data_def Let_def
        encodable_append encodable_lit encodable_timestamp encodable_str_bool_lower)
  then show ?thesis by (simp add: OutgoingIsTypingEvent_serialize_def str_encode_def)
qed

lemma OutgoingGroupIsTypingEvent_serialize_ok:
  assumes "encodable (message_id e)" and "encodable (OutgoingGroupIsTypingEvent.peer_jid e)"
  shows "OutgoingGroupIsTypingEvent_serialize w e
         = Inr (utf8s (OutgoingGroupIsTypingEvent_data w e))"
proof -
  have "encodable (OutgoingGroupIsTypingEvent_data w e)"
    using assms
    by (simp add: OutgoingGroupIsTypingEvent_data_def Let_def
        encodable_append encodable_lit encodable_timestamp encodable_str_bool_lower)
  then show ?thesis by (simp add: OutgoingGroupIsTypingEvent_serialize_def str_encode_def)
qed

lemma OutgoingLinkShareEvent_serialize_ok:
  assumes "encodable (message_id e)" and "encodable (OutgoingLinkShareEvent.peer_jid e)"
    and "encodable (link e)" and "encodable (title e)" and "encodable (text' e)"
    and "encodable (app_name e)"
  shows "OutgoingLinkShareEvent_serialize w e = Inr (utf8s (OutgoingLinkShareEvent_data w e))"
proof -
  have "encodable (OutgoingLinkShareEvent_data w e)"
    using assms
    by (simp add: OutgoingLinkShareEvent_data_def OutgoingLinkShareEvent_message_type_def Let_def
        encodable_append encodable_lit encodable_timestamp)
  then show ?thesis by (simp add: OutgoingLinkShareEvent_serialize_def str_encode_def)
qed

text \<open>The stanza text carries an empty \<^verbatim>\<open>id\<close> attribute.\<close>

lemma empty_id_chat:
  "message_id m = [] \<Longrightarrow> py_in (lit '' id=\"\"'') (OutgoingChatMessage_data w m)"
  by (simp add: OutgoingChatMessage_data_def Let_def lit_def py_in_append_right)

lemma empty_id_read:
  "message_id r = [] \<Longrightarrow> py_in (lit '' id=\"\"'') (OutgoingReadReceipt_data w r)"
  by (simp add: OutgoingReadReceipt_data_def Let_def lit_def py_in_append_right)

lemma empty_id_delivered:
  "message_id r = [] \<Longrightarrow> py_in (lit '' id=\"\"'') (OutgoingDeliveredReceipt_data w r)"
  by (simp add: OutgoingDeliveredReceipt_data_def Let_def lit_def py_in_append_right)

lemma empty_id_typing:
  "message_id e = [] \<Longrightarrow> py_in (lit '' id=\"\"'') (OutgoingIsTypingEvent_data w e)"
  by (simp add: OutgoingIsTypingEvent_data_def Let_def lit_def py_in_append_right)

lemma empty_id_group_typing:
  "message_id e = [] \<Longrightarrow> py_in (lit '' id=\"\"'') (OutgoingGroupIsTypingEvent_data w e)"
  by (simp add: OutgoingGroupIsTypingEvent_data_def Let_def lit_def py_in_append_right)

lemma empty_id_link:
  "message_id e = [] \<Longrightarrow> py_in (lit '' id=\"\"'') (OutgoingLinkShareEvent_data w e)"
  by (simp add: OutgoingLinkShareEvent_data_def OutgoingLinkShareEvent_message_type_def Let_def lit_def py_in_append_right)

lemma example_body_encodable: "encodable example_body"
  by (simp add: example_body_def encodable_append encodable_lit encodable_Cons encodable_Nil
      is_surrogate_def)

subsection \<open>The start tags of a link share\<close>


subsection \<open>The group line of a read receipt\<close>

text \<open>
  The fixed text around the identifier in \<^verbatim>\<open>group_line\<close> cannot contribute to an occurrence
  of \<^verbatim>\<open>groups\<close>: the test looks at the formatted identifier alone.
\<close>

lemma groups_in_group_line:
  "py_in (lit ''groups'') (OutgoingReadReceipt_group_line r)
   \<longleftrightarrow> (\<exists>g. OutgoingReadReceipt.group_jid r = Some g \<and> py_in (lit ''groups'') g)"
proof -
  have tail: "py_in (lit ''groups'') (s @ lit ''\" />'') = py_in (lit ''groups'') s" for s
  proof -
    have ne: "lit ''groups'' \<noteq> []"
      and c: "34 \<notin> set (lit ''groups'')" "32 \<notin> set (lit ''groups'')"
        "47 \<notin> set (lit ''groups'')" "62 \<notin> set (lit ''groups'')"
      by (simp_all add: lit_def)
    have "py_in (lit ''groups'') ((((s @ [34]) @ [32]) @ [47]) @ [62]) = py_in (lit ''groups'') s"
      by (simp only: py_in_snoc [OF c(1) ne] py_in_snoc [OF c(2) ne]
          py_in_snoc [OF c(3) ne] py_in_snoc [OF c(4) ne])
    moreover have "s @ lit ''\" />'' = (((s @ [34]) @ [32]) @ [47]) @ [62]"
      by (simp add: lit_def)
    ultimately show ?thesis by simp
  qed
  have "py_in (lit ''groups'') (OutgoingReadReceipt_group_line r)
        = py_in (lit ''groups'') (format_opt (OutgoingReadReceipt.group_jid r) @ lit ''\" />'')"
    by (simp add: OutgoingReadReceipt_group_line_def lit_def)
  also have "\<dots> = py_in (lit ''groups'') (format_opt (OutgoingReadReceipt.group_jid r))"
    by (rule tail)
  also have "\<dots> \<longleftrightarrow> (\<exists>g. OutgoingReadReceipt.group_jid r = Some g \<and> py_in (lit ''groups'') g)"
    by (cases "OutgoingReadReceipt.group_jid r") (simp_all add: format_opt_def lit_def)
  finally show ?thesis .
qed

section \<open>Facts about the decoders\<close>

lemma ebind_Inr: "ebind (Inr x) f = f x"
  by (simp add: ebind_def)

lemma ebind_Inl: "ebind (Inl e) f = Inl e"
  by (simp add: ebind_def)

lemma ebind_eq_Inr: "ebind m f = Inr y \<longleftrightarrow> (\<exists>x. m = Inr x \<and> f x = Inr y)"
  by (cases m) (simp_all add: ebind_def)

lemma find_tag_is_Tag: "find_tag t n = Some x \<Longrightarrow> \<exists>a cs. x = Tag n a cs"
proof -
  assume "find_tag t n = Some x"
  then have "x \<in> set (findAll t n)"
    by (auto simp: find_tag_def split: list.splits)
  then have "is_tag_named n x" by (simp add: findAll_def)
  then show ?thesis by (cases x) auto
qed

lemma getitem_Tag_attrs:
  "find_tag t n = Some x \<Longrightarrow>
   getitem x k = (case map_of (attrs_of x) k of None \<Rightarrow> Inl (KeyError k) | Some v \<Rightarrow> Inr v)"
  by (auto dest: find_tag_is_Tag)

lemma request_attr_true_cases:
  "request_attr_true data k =
     (case find_tag data (lit ''request'') of
        None \<Rightarrow> Inr False
      | Some req \<Rightarrow> (case map_of (attrs_of req) k of
                      None \<Rightarrow> Inl (KeyError k)
                    | Some v \<Rightarrow> Inr (v = lit ''true'')))"
  by (auto simp: request_attr_true_def ebind_def getitem_Tag_attrs split: option.splits)

lemma IncomingChatMessage_init_flags:
  assumes "IncomingChatMessage_init xi data = Inr m"
  shows "request_attr_true data (lit ''d'') = Inr (request_delivered_receipt m)"
    and "request_attr_true data (lit ''r'') = Inr (request_read_receipt m)"
  using assms by (auto simp: IncomingChatMessage_init_def ebind_eq_Inr)

lemma find_request_example:
  "find_tag (example_chat_stanza ra extra) (lit ''request'') = Some (Tag (lit ''request'') ra [])"
  by (simp add: example_chat_stanza_def find_tag_def findAll_def lit_def)

lemma first_of_filter:
  "(case filter P xs of [] \<Rightarrow> None | y # ys \<Rightarrow> Some y) = Some x \<Longrightarrow> P x"
  by (induction xs) (auto split: if_splits)

lemma find_nonrecursive_is_Tag: "find_nonrecursive t n = Some x \<Longrightarrow> \<exists>a cs. x = Tag n a cs"
proof -
  assume "find_nonrecursive t n = Some x"
  then have "is_tag_named n x"
    unfolding find_nonrecursive_def by (rule first_of_filter)
  then show ?thesis by (cases x) auto
qed

lemma getitem_opt_None: "getitem_opt None k = Inl TypeError"
  by (simp add: getitem_opt_def)



lemma parse_extras_loop_Inr:
  "map item_pair items = map Some pairs \<Longrightarrow>
   parse_extras_loop items m0 = Inr (m0 ++ map_of (rev pairs))"
proof (induction items arbitrary: m0 pairs)
  case Nil
  then show ?case by simp
next
  case (Cons item items)
  then obtain p ps where pairs: "pairs = p # ps" and p: "item_pair item = Some p"
    and ps: "map item_pair items = map Some ps"
    by (cases pairs) auto
  obtain k v where kv: "p = (k, v)" by (cases p)
  from p kv obtain val key where f: "find_tag item (lit ''val'') = Some val"
    "find_tag item (lit ''key'') = Some key" "k = string_of key" "v = get_text val"
    by (auto simp: item_pair_def split: option.splits)
  have "parse_extras_loop (item # items) m0 = parse_extras_loop items (m0(k \<mapsto> v))"
    using f by simp
  also have "\<dots> = Inr (m0(k \<mapsto> v) ++ map_of (rev ps))"
    using Cons.IH [OF ps] .
  also have "m0(k \<mapsto> v) ++ map_of (rev ps) = m0 ++ map_of (rev pairs)"
    by (simp add: pairs kv map_add_upd_left fun_eq_iff map_add_def split: option.splits)
  finally show ?case .
qed

lemma parse_extras_loop_pairs:
  "parse_extras_loop items m0 = Inr m \<Longrightarrow> \<exists>pairs. map item_pair items = map Some pairs"
proof (induction items arbitrary: m0)
  case Nil
  then show ?case by simp
next
  case (Cons item items)
  from Cons.prems obtain val key where f: "find_tag item (lit ''val'') = Some val"
    "find_tag item (lit ''key'') = Some key"
    and r: "parse_extras_loop items (m0(string_of key \<mapsto> get_text val)) = Inr m"
    by (auto split: option.splits)
  from Cons.IH [OF r] obtain ps where ps: "map item_pair items = map Some ps" by blast
  have "item_pair item = Some (string_of key, get_text val)"
    using f by (simp add: item_pair_def)
  then have "map item_pair (item # items) = map Some ((string_of key, get_text val) # ps)"
    using ps by simp
  then show ?case by blast
qed

lemma parse_extras_table:
  assumes "parse_extras (Some extras) = Inr m"
  shows "\<exists>pairs. map item_pair (findAll extras (lit ''item'')) = map Some pairs
           \<and> m = map_of (rev pairs)"
proof -
  from assms have l: "parse_extras_loop (findAll extras (lit ''item'')) Map.empty = Inr m"
    by (simp add: parse_extras_def)
  then obtain pairs where p: "map item_pair (findAll extras (lit ''item'')) = map Some pairs"
    using parse_extras_loop_pairs by blast
  from parse_extras_loop_Inr [OF p, of Map.empty] l have "m = map_of (rev pairs)" by simp
  then show ?thesis using p by blast
qed

lemma map_of_rev_last:
  assumes "i < length pairs"
    and "\<forall>j. i < j \<and> j < length pairs \<longrightarrow> fst (pairs ! j) \<noteq> fst (pairs ! i)"
  shows "map_of (rev pairs) (fst (pairs ! i)) = Some (snd (pairs ! i))"
  using assms
proof (induction pairs arbitrary: i rule: rev_induct)
  case Nil
  then show ?case by simp
next
  case (snoc p ps)
  show ?case
  proof (cases "i = length ps")
    case True
    then show ?thesis by (cases p) simp
  next
    case False
    then have i: "i < length ps" using snoc.prems(1) by simp
    have ne: "fst p \<noteq> fst (ps ! i)"
      using snoc.prems(2) [rule_format, of "length ps"] i by (simp add: nth_append)
    have "\<forall>j. i < j \<and> j < length ps \<longrightarrow> fst (ps ! j) \<noteq> fst (ps ! i)"
    proof (intro allI impI)
      fix j assume j: "i < j \<and> j < length ps"
      then show "fst (ps ! j) \<noteq> fst (ps ! i)"
        using snoc.prems(2) [rule_format, of j] i by (simp add: nth_append)
    qed
    from snoc.IH [OF i this] have "map_of (rev ps) (fst (ps ! i)) = Some (snd (ps ! i))" .
    then show ?thesis using ne i by (cases p) (simp add: nth_append)
  qed
qed

lemma map_of_filter_key: "map_of (filter (\<lambda>p. fst p = k) ps) k = map_of ps k"
  by (induction ps) auto





lemma example_sticker_unknown_key_decodes:
  "IncomingGroupSticker_init no_base
     (example_sticker_stanza [example_item ''sticker_pack_id'' ''abc'',
        example_item ''campaign'' ''spring'', example_item ''sticker_id'' ''7''])
   = Inr example_sticker"
  by (simp add: example_sticker_stanza_def example_item_def example_g_def example_sticker_def
      IncomingGroupSticker_init_def parse_extras_def extras_get_def Uri_init_def no_base_def
      find_tag_def findAll_def getitem_opt_def ebind_def lit_def)

lemma example_extras_items:
  "map item_pair (findAll example_extras (lit ''item''))
   = map Some [(Some (lit ''sticker_id''), lit ''5''), (Some (lit ''campaign''), lit ''spring''),
               (Some (lit ''sticker_id''), lit ''7'')]"
  by (simp add: example_extras_def example_item_def item_pair_def find_tag_def findAll_def lit_def)

lemma example_extras_parsed:
  "parse_extras (Some example_extras)
   = Inr (Map.empty(Some (lit ''sticker_id'') \<mapsto> lit ''5'', Some (lit ''campaign'') \<mapsto> lit ''spring'',
                    Some (lit ''sticker_id'') \<mapsto> lit ''7''))"
  by (simp add: example_extras_def example_item_def parse_extras_def find_tag_def findAll_def lit_def)

section \<open>Facts about the clock in the encoded stanza\<close>

lemma digits10_value: "foldl (\<lambda>a d. 10 * a + (d - 48)) 0 (digits10 n) = n"
proof (induction n rule: digits10.induct)
  case (1 n)
  show ?case
  proof (cases "n < 10")
    case True
    then show ?thesis by (simp add: digits10.simps [of n])
  next
    case False
    then show ?thesis using "1.IH" by (simp add: digits10.simps [of n])
  qed
qed

lemma digits10_inj:
  assumes "digits10 n = digits10 m"
  shows "n = m"
proof -
  have "foldl (\<lambda>a d. 10 * a + (d - 48)) 0 (digits10 n)
      = foldl (\<lambda>a d. 10 * a + (d - 48)) 0 (digits10 m)"
    by (simp only: assms)
  then show ?thesis by (simp only: digits10_value)
qed

lemma str_int_inj: "str_int i = str_int j \<Longrightarrow> i = j"
proof -
  assume eq: "str_int i = str_int j"
  have no45: "45 \<notin> set (digits10 n)" for n
    using digits10_range [of 45 n] by auto
  show ?thesis
  proof (cases "i < 0")
    case True
    show ?thesis
    proof (cases "j < 0")
      case True
      with \<open>i < 0\<close> eq have "digits10 (nat (- i)) = digits10 (nat (- j))"
        by (simp add: str_int_def)
      then have "nat (- i) = nat (- j)" by (rule digits10_inj)
      with True \<open>i < 0\<close> show ?thesis by simp
    next
      case False
      with \<open>i < 0\<close> eq have "45 # digits10 (nat (- i)) = digits10 (nat j)"
        by (simp add: str_int_def)
      then have "45 \<in> set (digits10 (nat j))" by (metis list.set_intros(1))
      then show ?thesis using no45 by blast
    qed
  next
    case False
    show ?thesis
    proof (cases "j < 0")
      case True
      with \<open>\<not> i < 0\<close> eq have "digits10 (nat i) = 45 # digits10 (nat (- j))"
        by (simp add: str_int_def)
      then have "45 \<in> set (digits10 (nat i))" by (metis list.set_intros(1))
      then show ?thesis using no45 by blast
    next
      case False
      with \<open>\<not> i < 0\<close> eq have "digits10 (nat i) = digits10 (nat j)"
        by (simp add: str_int_def)
      then have "nat i = nat j" by (rule digits10_inj)
      with False \<open>\<not> i < 0\<close> show ?thesis by simp
    qed
  qed
qed

lemma split_at_first:
  "c \<notin> set xs \<Longrightarrow> c \<notin> set ys \<Longrightarrow> xs @ c # a = ys @ c # b \<Longrightarrow> xs = ys"
proof (induction xs arbitrary: ys)
  case Nil
  then show ?case by (cases ys) auto
next
  case (Cons x xs)
  then show ?case by (cases ys) auto
qed

lemma utf8s_ascii: "\<forall>x\<in>set s. x < 128 \<Longrightarrow> utf8s s = map char_of s"
  by (induction s) (simp_all add: utf8s_def utf8_def)

lemma timestamp_ascii: "x \<in> set (timestamp w) \<Longrightarrow> x < 128"
  using str_int_range [of x "time_ms w"] by (auto simp: timestamp_def)

lemma timestamp_no_quote: "34 \<notin> set (timestamp w)"
  using str_int_range [of 34 "time_ms w"] by (auto simp: timestamp_def)

lemma utf8s_timestamp_no_quote: "CHR 0x22 \<notin> set (utf8s (timestamp w))"
proof
  assume "CHR 0x22 \<in> set (utf8s (timestamp w))"
  then have "CHR 0x22 \<in> char_of ` set (timestamp w)"
    using timestamp_ascii [of _ w] by (simp add: utf8s_ascii)
  then obtain x where x: "x \<in> set (timestamp w)" and c: "char_of x = CHR 0x22" by auto
  from x have "x < 128" by (rule timestamp_ascii)
  moreover have "of_char (char_of x) = (34::nat)" by (simp only: c) simp
  ultimately have "x = 34" by (simp add: of_char_of)
  then show False using x timestamp_no_quote by blast
qed

lemma of_char_char_of_timestamp:
  "map (of_char :: char \<Rightarrow> nat) (map char_of (timestamp w)) = timestamp w"
proof -
  have "of_char (char_of x) = x" if "x \<in> set (timestamp w)" for x :: nat
    using timestamp_ascii [OF that] by (simp add: of_char_of)
  then show ?thesis by (simp add: map_idI)
qed

lemma utf8s_timestamp_inj:
  fixes w1 :: "'a world_scheme" and w2 :: "'b world_scheme"
  assumes "utf8s (timestamp w1) = utf8s (timestamp w2)"
  shows "time_ms w1 = time_ms w2"
proof -
  have "map char_of (timestamp w1) = map char_of (timestamp w2)"
    using assms timestamp_ascii [of _ w1] timestamp_ascii [of _ w2] by (simp add: utf8s_ascii)
  then have "map (of_char :: char \<Rightarrow> nat) (map char_of (timestamp w1))
           = map of_char (map char_of (timestamp w2))" by (simp only:)
  then have "timestamp w1 = timestamp w2" by (simp only: of_char_char_of_timestamp)
  then show ?thesis by (auto simp: timestamp_def dest: str_int_inj)
qed

lemma char_of_34: "char_of (34::nat) = CHR 0x22"
proof -
  have "of_char (char_of (34::nat)) = (of_char (CHR 0x22) :: nat)" by simp
  then show ?thesis by (simp only: of_char_eq_iff)
qed

text \<open>
  Two encoded stanza texts that agree up to the first timestamp, which a quotation mark
  follows, are equal only when the clock readings are.
\<close>

lemma encoded_clock_inj:
  fixes w1 :: "'a world_scheme" and w2 :: "'b world_scheme"
  assumes "utf8s (P @ timestamp w1 @ 34 # R1) = utf8s (P @ timestamp w2 @ 34 # R2)"
  shows "time_ms w1 = time_ms w2"
proof -
  have q: "utf8s (34 # R) = CHR 0x22 # utf8s R" for R
    by (simp add: utf8s_def utf8_def char_of_34)
  from assms have "utf8s (timestamp w1) @ CHR 0x22 # utf8s R1
                 = utf8s (timestamp w2) @ CHR 0x22 # utf8s R2"
    by (simp add: utf8s_append q)
  then have "utf8s (timestamp w1) = utf8s (timestamp w2)"
    using utf8s_timestamp_no_quote [of w1] utf8s_timestamp_no_quote [of w2]
    by (rule split_at_first [rotated 2])
  then show ?thesis by (rule utf8s_timestamp_inj)
qed

lemma str_encode_clock_iff:
  fixes w1 :: "'a world_scheme" and w2 :: "'b world_scheme"
  assumes d1: "\<exists>R. data1 = P @ timestamp w1 @ 34 # R"
    and d2: "\<exists>R. data2 = P @ timestamp w2 @ 34 # R"
    and e1: "encodable data1" and e2: "encodable data2"
    and same: "timestamp w1 = timestamp w2 \<Longrightarrow> data1 = data2"
  shows "str_encode data1 = str_encode data2 \<longleftrightarrow> time_ms w1 = time_ms w2"
proof
  assume "str_encode data1 = str_encode data2"
  then have u: "utf8s data1 = utf8s data2" using e1 e2 by (simp add: str_encode_def)
  from d1 obtain R1 where 1: "data1 = P @ timestamp w1 @ 34 # R1" by blast
  from d2 obtain R2 where 2: "data2 = P @ timestamp w2 @ 34 # R2" by blast
  from u show "time_ms w1 = time_ms w2" unfolding 1 2 by (rule encoded_clock_inj)
next
  assume "time_ms w1 = time_ms w2"
  then have "timestamp w1 = timestamp w2" by (simp add: timestamp_def)
  then have "data1 = data2" by (rule same)
  then show "str_encode data1 = str_encode data2" by simp
qed

lemma OutgoingChatMessage_data_encodable:
  assumes "encodable (message_id m)"
    and "encodable (OutgoingChatMessage.peer_jid m)"
    and "encodable (OutgoingChatMessage.body m)"
    and "\<forall>b. bot_mention_jid m = Some b \<longrightarrow> encodable b"
  shows "encodable (OutgoingChatMessage_data w m)"
proof -
  have "encodable (format_opt (bot_mention_jid m))"
    using assms(4) by (cases "bot_mention_jid m") (simp_all add: format_opt_def encodable_lit)
  then show ?thesis
    using assms(1-3)
    by (simp add: OutgoingChatMessage_data_def Let_def encodable_append encodable_lit encodable_timestamp encodable_escape_xml encodable_take encodable_Nil)
qed

lemma OutgoingChatMessage_data_shape:
  "\<exists>R. OutgoingChatMessage_data w m =
     (lit ''<message type=\"'' @ (if \<not> is_group m then lit ''chat'' else lit ''groupchat'')
      @ lit ''\" to=\"'' @ OutgoingChatMessage.peer_jid m
      @ lit ''\" id=\"'' @ message_id m @ lit ''\" cts=\"'')
     @ timestamp w @ 34 # R"
  by (simp add: OutgoingChatMessage_data_def Let_def lit_def)

lemma OutgoingChatMessage_clock_iff:
  fixes w1 :: "'a world_scheme" and w2 :: "'b world_scheme"
  assumes "encodable (message_id m)"
    and "encodable (OutgoingChatMessage.peer_jid m)"
    and "encodable (OutgoingChatMessage.body m)"
    and "\<forall>b. bot_mention_jid m = Some b \<longrightarrow> encodable b"
  shows "OutgoingChatMessage_serialize w1 m = OutgoingChatMessage_serialize w2 m \<longleftrightarrow> time_ms w1 = time_ms w2"
  unfolding OutgoingChatMessage_serialize_def
proof (rule str_encode_clock_iff)
  show "\<exists>R. OutgoingChatMessage_data w1 m =
     (lit ''<message type=\"'' @ (if \<not> is_group m then lit ''chat'' else lit ''groupchat'')
      @ lit ''\" to=\"'' @ OutgoingChatMessage.peer_jid m
      @ lit ''\" id=\"'' @ message_id m @ lit ''\" cts=\"'')
     @ timestamp w1 @ 34 # R"
    by (rule OutgoingChatMessage_data_shape)
  show "\<exists>R. OutgoingChatMessage_data w2 m =
     (lit ''<message type=\"'' @ (if \<not> is_group m then lit ''chat'' else lit ''groupchat'')
      @ lit ''\" to=\"'' @ OutgoingChatMessage.peer_jid m
      @ lit ''\" id=\"'' @ message_id m @ lit ''\" cts=\"'')
     @ timestamp w2 @ 34 # R"
    by (rule OutgoingChatMessage_data_shape)
  show "encodable (OutgoingChatMessage_data w1 m)"
    using assms by (rule OutgoingChatMessage_data_encodable)
  show "encodable (OutgoingChatMessage_data w2 m)"
    using assms by (rule OutgoingChatMessage_data_encodable)
  show "OutgoingChatMessage_data w1 m = OutgoingChatMessage_data w2 m" if "timestamp w1 = timestamp w2"
    using that by (simp add: OutgoingChatMessage_data_def)
qed

lemma OutgoingReadReceipt_data_encodable:
  assumes "encodable (message_id r)"
    and "encodable (OutgoingReadReceipt.peer_jid r)"
    and "encodable (OutgoingReadReceipt.receipt_message_id r)"
    and "\<forall>g. OutgoingReadReceipt.group_jid r = Some g \<longrightarrow> encodable g"
  shows "encodable (OutgoingReadReceipt_data w r)"
proof -
  have "encodable (format_opt (OutgoingReadReceipt.group_jid r))"
    using assms(4) by (cases "OutgoingReadReceipt.group_jid r") (simp_all add: format_opt_def encodable_lit)
  then show ?thesis
    using assms(1-3)
    by (simp add: OutgoingReadReceipt_data_def Let_def encodable_append encodable_lit encodable_timestamp OutgoingReadReceipt_group_line_def)
qed

lemma OutgoingReadReceipt_data_shape:
  "\<exists>R. OutgoingReadReceipt_data w r =
     (lit ''<message type=\"receipt\" id=\"'' @ message_id r
      @ lit ''\" to=\"'' @ OutgoingReadReceipt.peer_jid r @ lit ''\" cts=\"'')
     @ timestamp w @ 34 # R"
  by (simp add: OutgoingReadReceipt_data_def Let_def lit_def)

lemma OutgoingReadReceipt_clock_iff:
  fixes w1 :: "'a world_scheme" and w2 :: "'b world_scheme"
  assumes "encodable (message_id r)"
    and "encodable (OutgoingReadReceipt.peer_jid r)"
    and "encodable (OutgoingReadReceipt.receipt_message_id r)"
    and "\<forall>g. OutgoingReadReceipt.group_jid r = Some g \<longrightarrow> encodable g"
  shows "OutgoingReadReceipt_serialize w1 r = OutgoingReadReceipt_serialize w2 r \<longleftrightarrow> time_ms w1 = time_ms w2"
  unfolding OutgoingReadReceipt_serialize_def
proof (rule str_encode_clock_iff)
  show "\<exists>R. OutgoingReadReceipt_data w1 r =
     (lit ''<message type=\"receipt\" id=\"'' @ message_id r
      @ lit ''\" to=\"'' @ OutgoingReadReceipt.peer_jid r @ lit ''\" cts=\"'')
     @ timestamp w1 @ 34 # R"
    by (rule OutgoingReadReceipt_data_shape)
  show "\<exists>R. OutgoingReadReceipt_data w2 r =
     (lit ''<message type=\"receipt\" id=\"'' @ message_id r
      @ lit ''\" to=\"'' @ OutgoingReadReceipt.peer_jid r @ lit ''\" cts=\"'')
     @ timestamp w2 @ 34 # R"
    by (rule OutgoingReadReceipt_data_shape)
  show "encodable (OutgoingReadReceipt_data w1 r)"
    using assms by (rule OutgoingReadReceipt_data_encodable)
  show "encodable (OutgoingReadReceipt_data w2 r)"
    using assms by (rule OutgoingReadReceipt_data_encodable)
  show "OutgoingReadReceipt_data w1 r = OutgoingReadReceipt_data w2 r" if "timestamp w1 = timestamp w2"
    using that by (simp add: OutgoingReadReceipt_data_def)
qed

lemma OutgoingDeliveredReceipt_data_encodable:
  assumes "encodable (message_id d)"
    and "encodable (OutgoingDeliveredReceipt.peer_jid d)"
    and "encodable (OutgoingDeliveredReceipt.receipt_message_id d)"
  shows "encodable (OutgoingDeliveredReceipt_data w d)"
proof -
  show ?thesis
    using assms
    by (simp add: OutgoingDeliveredReceipt_data_def Let_def encodable_append encodable_lit encodable_timestamp)
qed

lemma OutgoingDeliveredReceipt_data_shape:
  "\<exists>R. OutgoingDeliveredReceipt_data w d =
     (lit ''<message type=\"receipt\" id=\"'' @ message_id d
      @ lit ''\" to=\"'' @ OutgoingDeliveredReceipt.peer_jid d @ lit ''\" cts=\"'')
     @ timestamp w @ 34 # R"
  by (simp add: OutgoingDeliveredReceipt_data_def Let_def lit_def)

lemma OutgoingDeliveredReceipt_clock_iff:
  fixes w1 :: "'a world_scheme" and w2 :: "'b world_scheme"
  assumes "encodable (message_id d)"
    and "encodable (OutgoingDeliveredReceipt.peer_jid d)"
    and "encodable (OutgoingDeliveredReceipt.receipt_message_id d)"
  shows "OutgoingDeliveredReceipt_serialize w1 d = OutgoingDeliveredReceipt_serialize w2 d \<longleftrightarrow> time_ms w1 = time_ms w2"
  unfolding OutgoingDeliveredReceipt_serialize_def
proof (rule str_encode_clock_iff)
  show "\<exists>R. OutgoingDeliveredReceipt_data w1 d =
     (lit ''<message type=\"receipt\" id=\"'' @ message_id d
      @ lit ''\" to=\"'' @ OutgoingDeliveredReceipt.peer_jid d @ lit ''\" cts=\"'')
     @ timestamp w1 @ 34 # R"
    by (rule OutgoingDeliveredReceipt_data_shape)
  show "\<exists>R. OutgoingDeliveredReceipt_data w2 d =
     (lit ''<message type=\"receipt\" id=\"'' @ message_id d
      @ lit ''\" to=\"'' @ OutgoingDeliveredReceipt.peer_jid d @ lit ''\" cts=\"'')
     @ timestamp w2 @ 34 # R"
    by (rule OutgoingDeliveredReceipt_data_shape)
  show "encodable (OutgoingDeliveredReceipt_data w1 d)"
    using assms by (rule OutgoingDeliveredReceipt_data_encodable)
  show "encodable (OutgoingDeliveredReceipt_data w2 d)"
    using assms by (rule OutgoingDeliveredReceipt_data_encodable)
  show "OutgoingDeliveredReceipt_data w1 d = OutgoingDeliveredReceipt_data w2 d" if "timestamp w1 = timestamp w2"
    using that by (simp add: OutgoingDeliveredReceipt_data_def)
qed

lemma OutgoingIsTypingEvent_data_encodable:
  assumes "encodable (message_id t)"
    and "encodable (OutgoingIsTypingEvent.peer_jid t)"
  shows "encodable (OutgoingIsTypingEvent_data w t)"
proof -
  show ?thesis
    using assms
    by (simp add: OutgoingIsTypingEvent_data_def Let_def encodable_append encodable_lit encodable_timestamp encodable_str_bool_lower)
qed

lemma OutgoingIsTypingEvent_data_shape:
  "\<exists>R. OutgoingIsTypingEvent_data w t =
     (lit ''<message type=\"chat\" to=\"'' @ OutgoingIsTypingEvent.peer_jid t
      @ lit ''\" id=\"'' @ message_id t @ lit ''\">''
      @ lit ''<kik push=\"false\" qos=\"false\" timestamp=\"'')
     @ timestamp w @ 34 # R"
  by (simp add: OutgoingIsTypingEvent_data_def Let_def lit_def)

lemma OutgoingIsTypingEvent_clock_iff:
  fixes w1 :: "'a world_scheme" and w2 :: "'b world_scheme"
  assumes "encodable (message_id t)"
    and "encodable (OutgoingIsTypingEvent.peer_jid t)"
  shows "OutgoingIsTypingEvent_serialize w1 t = OutgoingIsTypingEvent_serialize w2 t \<longleftrightarrow> time_ms w1 = time_ms w2"
  unfolding OutgoingIsTypingEvent_serialize_def
proof (rule str_encode_clock_iff)
  show "\<exists>R. OutgoingIsTypingEvent_data w1 t =
     (lit ''<message type=\"chat\" to=\"'' @ OutgoingIsTypingEvent.peer_jid t
      @ lit ''\" id=\"'' @ message_id t @ lit ''\">''
      @ lit ''<kik push=\"false\" qos=\"false\" timestamp=\"'')
     @ timestamp w1 @ 34 # R"
    by (rule OutgoingIsTypingEvent_data_shape)
  show "\<exists>R. OutgoingIsTypingEvent_data w2 t =
     (lit ''<message type=\"chat\" to=\"'' @ OutgoingIsTypingEvent.peer_jid t
      @ lit ''\" id=\"'' @ message_id t @ lit ''\">''
      @ lit ''<kik push=\"false\" qos=\"false\" timestamp=\"'')
     @ timestamp w2 @ 34 # R"
    by (rule OutgoingIsTypingEvent_data_shape)
  show "encodable (OutgoingIsTypingEvent_data w1 t)"
    using assms by (rule OutgoingIsTypingEvent_data_encodable)
  show "encodable (OutgoingIsTypingEvent_data w2 t)"
    using assms by (rule OutgoingIsTypingEvent_data_encodable)
  show "OutgoingIsTypingEvent_data w1 t = OutgoingIsTypingEvent_data w2 t" if "timestamp w1 = timestamp w2"
    using that by (simp add: OutgoingIsTypingEvent_data_def)
qed

lemma OutgoingGroupIsTypingEvent_data_encodable:
  assumes "encodable (message_id u)"
    and "encodable (OutgoingGroupIsTypingEvent.peer_jid u)"
  shows "encodable (OutgoingGroupIsTypingEvent_data w u)"
proof -
  show ?thesis
    using assms
    by (simp add: OutgoingGroupIsTypingEvent_data_def Let_def encodable_append encodable_lit encodable_timestamp encodable_str_bool_lower)
qed

lemma OutgoingGroupIsTypingEvent_data_shape:
  "\<exists>R. OutgoingGroupIsTypingEvent_data w u =
     (lit ''<message type=\"groupchat\" to=\"'' @ OutgoingGroupIsTypingEvent.peer_jid u
      @ lit ''\" id=\"'' @ message_id u @ lit ''\">''
      @ lit ''<pb></pb>''
      @ lit ''<kik push=\"false\" qos=\"false\" timestamp=\"'')
     @ timestamp w @ 34 # R"
  by (simp add: OutgoingGroupIsTypingEvent_data_def Let_def lit_def)

lemma OutgoingGroupIsTypingEvent_clock_iff:
  fixes w1 :: "'a world_scheme" and w2 :: "'b world_scheme"
  assumes "encodable (message_id u)"
    and "encodable (OutgoingGroupIsTypingEvent.peer_jid u)"
  shows "OutgoingGroupIsTypingEvent_serialize w1 u = OutgoingGroupIsTypingEvent_serialize w2 u \<longleftrightarrow> time_ms w1 = time_ms w2"
  unfolding OutgoingGroupIsTypingEvent_serialize_def
proof (rule str_encode_clock_iff)
  show "\<exists>R. OutgoingGroupIsTypingEvent_data w1 u =
     (lit ''<message type=\"groupchat\" to=\"'' @ OutgoingGroupIsTypingEvent.peer_jid u
      @ lit ''\" id=\"'' @ message_id u @ lit ''\">''
      @ lit ''<pb></pb>''
      @ lit ''<kik push=\"false\" qos=\"false\" timestamp=\"'')
     @ timestamp w1 @ 34 # R"
    by (rule OutgoingGroupIsTypingEvent_data_shape)
  show "\<exists>R. OutgoingGroupIsTypingEvent_data w2 u =
     (lit ''<message type=\"groupchat\" to=\"'' @ OutgoingGroupIsTypingEvent.peer_jid u
      @ lit ''\" id=\"'' @ message_id u @ lit ''\">''
      @ lit ''<pb></pb>''
      @ lit ''<kik push=\"false\" qos=\"false\" timestamp=\"'')
     @ timestamp w2 @ 34 # R"
    by (rule OutgoingGroupIsTypingEvent_data_shape)
  show "encodable (OutgoingGroupIsTypingEvent_data w1 u)"
    using assms by (rule OutgoingGroupIsTypingEvent_data_encodable)
  show "encodable (OutgoingGroupIsTypingEvent_data w2 u)"
    using assms by (rule OutgoingGroupIsTypingEvent_data_encodable)
  show "OutgoingGroupIsTypingEvent_data w1 u = OutgoingGroupIsTypingEvent_data w2 u" if "timestamp w1 = timestamp w2"
    using that by (simp add: OutgoingGroupIsTypingEvent_data_def)
qed

lemma OutgoingLinkShareEvent_data_encodable:
  assumes "encodable (message_id l)"
    and "encodable (OutgoingLinkShareEvent.peer_jid l)"
    and "encodable (link l)"
    and "encodable (title l)"
    and "encodable (text' l)"
    and "encodable (app_name l)"
  shows "encodable (OutgoingLinkShareEvent_data w l)"
proof -
  show ?thesis
    using assms
    by (simp add: OutgoingLinkShareEvent_data_def Let_def encodable_append encodable_lit encodable_timestamp OutgoingLinkShareEvent_message_type_def)
qed

lemma OutgoingLinkShareEvent_data_shape:
  "\<exists>R. OutgoingLinkShareEvent_data w l =
     (lit ''<message '' @ OutgoingLinkShareEvent_message_type l
      @ lit '' to=\"'' @ OutgoingLinkShareEvent.peer_jid l
      @ lit ''\" id=\"'' @ message_id l @ lit ''\" cts=\"'')
     @ timestamp w @ 34 # R"
  by (simp add: OutgoingLinkShareEvent_data_def Let_def lit_def)

lemma OutgoingLinkShareEvent_clock_iff:
  fixes w1 :: "'a world_scheme" and w2 :: "'b world_scheme"
  assumes "encodable (message_id l)"
    and "encodable (OutgoingLinkShareEvent.peer_jid l)"
    and "encodable (link l)"
    and "encodable (title l)"
    and "encodable (text' l)"
    and "encodable (app_name l)"
  shows "OutgoingLinkShareEvent_serialize w1 l = OutgoingLinkShareEvent_serialize w2 l \<longleftrightarrow> time_ms w1 = time_ms w2"
  unfolding OutgoingLinkShareEvent_serialize_def
proof (rule str_encode_clock_iff)
  show "\<exists>R. OutgoingLinkShareEvent_data w1 l =
     (lit ''<message '' @ OutgoingLinkShareEvent_message_type l
      @ lit '' to=\"'' @ OutgoingLinkShareEvent.peer_jid l
      @ lit ''\" id=\"'' @ message_id l @ lit ''\" cts=\"'')
     @ timestamp w1 @ 34 # R"
    by (rule OutgoingLinkShareEvent_data_shape)
  show "\<exists>R. OutgoingLinkShareEvent_data w2 l =
     (lit ''<message '' @ OutgoingLinkShareEvent_message_type l
      @ lit '' to=\"'' @ OutgoingLinkShareEvent.peer_jid l
      @ lit ''\" id=\"'' @ message_id l @ lit ''\" cts=\"'')
     @ timestamp w2 @ 34 # R"
    by (rule OutgoingLinkShareEvent_data_shape)
  show "encodable (OutgoingLinkShareEvent_data w1 l)"
    using assms by (rule OutgoingLinkShareEvent_data_encodable)
  show "encodable (OutgoingLinkShareEvent_data w2 l)"
    using assms by (rule OutgoingLinkShareEvent_data_encodable)
  show "OutgoingLinkShareEvent_data w1 l = OutgoingLinkShareEvent_data w2 l" if "timestamp w1 = timestamp w2"
    using that by (simp add: OutgoingLinkShareEvent_data_def)
qed

section \<open>Facts about the bytes of a link share\<close>


lemma prefix_exI: "x = y @ post \<Longrightarrow> \<exists>p. x = y @ p"
  by blast



section \<open>The claims\<close>

subsection \<open>C1: the group element of a read receipt\<close>

text \<open>
  C1 says that a serialized read receipt holds the \<^verbatim>\<open>g\<close> element exactly when a group
  identifier was given to the constructor. The source decides by the test
  \<^verbatim>\<open>'groups' in group_line\<close>, so a receipt whose group identifier lacks the text
  \<^verbatim>\<open>groups\<close> is serialized without the element: at this input the identifier is
  \<^verbatim>\<open>teamchat\<close> and the stanza has no \<^verbatim>\<open>g\<close> element.
\<close>

theorem C1_group_flag_counterexample:
  "OutgoingReadReceipt.group_jid (example_receipt (Some (lit ''teamchat''))) \<noteq> None
   \<and> \<not> has_group_element
        (OutgoingReadReceipt_data example_world (example_receipt (Some (lit ''teamchat''))))
   \<and> OutgoingReadReceipt_serialize example_world (example_receipt (Some (lit ''teamchat'')))
       = Inr ''<message type=\"receipt\" id=\"a1b2\" to=\"bob_x1@talk.kik.com\" cts=\"1541376000123\"><kik push=\"false\" qos=\"true\" timestamp=\"1541376000123\" /><receipt xmlns=\"kik:message:receipt\" type=\"read\"><msgid id=\"c3d4\" /></receipt></message>''"
proof -
  have d: "OutgoingReadReceipt_data example_world (example_receipt (Some (lit ''teamchat'')))
      = lit ''<message type=\"receipt\" id=\"a1b2\" to=\"bob_x1@talk.kik.com\" cts=\"1541376000123\"><kik push=\"false\" qos=\"true\" timestamp=\"1541376000123\" /><receipt xmlns=\"kik:message:receipt\" type=\"read\"><msgid id=\"c3d4\" /></receipt></message>''"
    by (simp add: example_receipt_def OutgoingReadReceipt_data_def
        OutgoingReadReceipt_group_line_def format_opt_def example_timestamp Let_def lit_def)
  have "\<not> has_group_element
        (OutgoingReadReceipt_data example_world (example_receipt (Some (lit ''teamchat''))))"
    by (simp only: d) (simp add: has_group_element_def lit_def)
  moreover have "OutgoingReadReceipt_serialize example_world
      (example_receipt (Some (lit ''teamchat'')))
       = Inr ''<message type=\"receipt\" id=\"a1b2\" to=\"bob_x1@talk.kik.com\" cts=\"1541376000123\"><kik push=\"false\" qos=\"true\" timestamp=\"1541376000123\" /><receipt xmlns=\"kik:message:receipt\" type=\"read\"><msgid id=\"c3d4\" /></receipt></message>''"
    by (simp only: OutgoingReadReceipt_serialize_def d) (rule encode_lit, simp)
  moreover have "OutgoingReadReceipt.group_jid (example_receipt (Some (lit ''teamchat''))) \<noteq> None"
    by (simp add: example_receipt_def)
  ultimately show ?thesis by blast
qed

text \<open>
  C1, amended: when the message identifier, the peer identifier and the receipt identifier
  contain no \<^verbatim>\<open><\<close>, the stanza text of a read receipt holds the \<^verbatim>\<open>g\<close> element exactly when
  a group identifier was given and the text \<^verbatim>\<open>groups\<close> occurs in it. In particular a
  receipt built without a group identifier never holds the element. The decision is a
  substring test on the identifier, not a membership flag.
\<close>

theorem C1_group_element_iff_groups_in_jid:
  assumes "60 \<notin> set (message_id r)"
    and "60 \<notin> set (OutgoingReadReceipt.peer_jid r)"
    and "60 \<notin> set (OutgoingReadReceipt.receipt_message_id r)"
  shows "(has_group_element (OutgoingReadReceipt_data w r)
          \<longleftrightarrow> (\<exists>g. OutgoingReadReceipt.group_jid r = Some g \<and> py_in (lit ''groups'') g))
         \<and> (OutgoingReadReceipt.group_jid r = None
              \<longrightarrow> \<not> has_group_element (OutgoingReadReceipt_data w r))"
proof -
  have "has_group_element (OutgoingReadReceipt_data w r)
        \<longleftrightarrow> (\<exists>g. OutgoingReadReceipt.group_jid r = Some g \<and> py_in (lit ''groups'') g)"
  proof (cases "py_in (lit ''groups'') (OutgoingReadReceipt_group_line r)")
    case True
    then have "has_group_element (OutgoingReadReceipt_data w r)"
      using assms timestamp_no_lt [of w]
      by (simp add: has_group_element_def OutgoingReadReceipt_data_def Let_def
          OutgoingReadReceipt_group_line_def lit_def py_in_skip)
    then show ?thesis using True groups_in_group_line by blast
  next
    case False
    then have "\<not> has_group_element (OutgoingReadReceipt_data w r)"
      using assms timestamp_no_lt [of w]
      by (simp add: has_group_element_def OutgoingReadReceipt_data_def Let_def lit_def
          py_in_skip)
    then show ?thesis using False groups_in_group_line by blast
  qed
  then show ?thesis by auto
qed

theorem C1_group_element_witness:
  "60 \<notin> set (message_id (example_receipt (Some (lit ''1100221_g@groups.kik.com''))))
   \<and> has_group_element (OutgoingReadReceipt_data example_world
        (example_receipt (Some (lit ''1100221_g@groups.kik.com''))))
   \<and> \<not> has_group_element (OutgoingReadReceipt_data example_world (example_receipt None))"
proof -
  have a: "60 \<notin> set (message_id (example_receipt g))"
    "60 \<notin> set (OutgoingReadReceipt.peer_jid (example_receipt g))"
    "60 \<notin> set (OutgoingReadReceipt.receipt_message_id (example_receipt g))" for g
    by (simp_all add: example_receipt_def lit_def)
  have "py_in (lit ''groups'') (lit ''1100221_g@groups.kik.com'')"
    by (simp add: lit_def)
  then have "has_group_element (OutgoingReadReceipt_data example_world
        (example_receipt (Some (lit ''1100221_g@groups.kik.com''))))"
    using a C1_group_element_iff_groups_in_jid
      [where r = "example_receipt (Some (lit ''1100221_g@groups.kik.com''))" and w = example_world]
    by (simp add: example_receipt_def)
  moreover have "\<not> has_group_element (OutgoingReadReceipt_data example_world (example_receipt None))"
    using a C1_group_element_iff_groups_in_jid
      [where r = "example_receipt None" and w = example_world]
    by (simp add: example_receipt_def)
  ultimately show ?thesis using a by blast
qed

subsection \<open>C2: an empty message identifier\<close>

text \<open>
  C2 says that serializing an element whose \<^verbatim>\<open>message_id\<close> is empty raises a precondition
  violation and produces no bytes. No serializer inspects \<^verbatim>\<open>message_id\<close>: it is formatted
  into the \<^verbatim>\<open>id\<close> attribute as it is. A chat message with an empty identifier is serialized
  to a complete stanza with \<^verbatim>\<open>id=""\<close>.
\<close>

theorem C2_empty_message_id_counterexample:
  "message_id ((example_chat (lit ''hi''))\<lparr>message_id := []\<rparr>) = []
   \<and> OutgoingChatMessage_serialize example_world ((example_chat (lit ''hi''))\<lparr>message_id := []\<rparr>)
       = Inr ''<message type=\"chat\" to=\"bob_x1@talk.kik.com\" id=\"\" cts=\"1541376000123\"><body>hi</body><preview>hi</preview><kik push=\"true\" qos=\"true\" timestamp=\"1541376000123\" /><request xmlns=\"kik:message:receipt\" r=\"true\" d=\"true\" /><ri></ri></message>''"
proof -
  have "OutgoingChatMessage_data example_world ((example_chat (lit ''hi''))\<lparr>message_id := []\<rparr>)
       = lit ''<message type=\"chat\" to=\"bob_x1@talk.kik.com\" id=\"\" cts=\"1541376000123\"><body>hi</body><preview>hi</preview><kik push=\"true\" qos=\"true\" timestamp=\"1541376000123\" /><request xmlns=\"kik:message:receipt\" r=\"true\" d=\"true\" /><ri></ri></message>''"
    by (simp add: example_chat_def OutgoingChatMessage_data_def truthy_def escape_xml_def
        escape_char_def example_timestamp Let_def lit_def)
  then have "OutgoingChatMessage_serialize example_world ((example_chat (lit ''hi''))\<lparr>message_id := []\<rparr>)
       = Inr ''<message type=\"chat\" to=\"bob_x1@talk.kik.com\" id=\"\" cts=\"1541376000123\"><body>hi</body><preview>hi</preview><kik push=\"true\" qos=\"true\" timestamp=\"1541376000123\" /><request xmlns=\"kik:message:receipt\" r=\"true\" d=\"true\" /><ri></ri></message>''"
    by (simp only: OutgoingChatMessage_serialize_def) (rule encode_lit, simp)
  then show ?thesis by simp
qed

text \<open>
  C2, amended: for every outgoing element (chat message, read receipt, delivered receipt,
  typing event, group typing event, link share) whose \<^verbatim>\<open>message_id\<close> is empty and whose
  other string attributes hold no lone surrogate, \<^verbatim>\<open>serialize\<close> returns the complete encoded
  stanza, and the stanza text carries the empty attribute \<^verbatim>\<open>id=""\<close>. Nothing is checked and
  nothing is raised on account of the identifier.
\<close>

theorem C2_empty_message_id_is_serialized:
  "(message_id m = [] \<and> encodable (OutgoingChatMessage.peer_jid m)
      \<and> encodable (OutgoingChatMessage.body m) \<and> (\<forall>b. bot_mention_jid m = Some b \<longrightarrow> encodable b)
     \<longrightarrow> OutgoingChatMessage_serialize w m = Inr (utf8s (OutgoingChatMessage_data w m))
         \<and> py_in (lit '' id=\"\"'') (OutgoingChatMessage_data w m))
   \<and> (message_id r = [] \<and> encodable (OutgoingReadReceipt.peer_jid r)
      \<and> encodable (OutgoingReadReceipt.receipt_message_id r)
      \<and> (\<forall>g. OutgoingReadReceipt.group_jid r = Some g \<longrightarrow> encodable g)
     \<longrightarrow> OutgoingReadReceipt_serialize w r = Inr (utf8s (OutgoingReadReceipt_data w r))
         \<and> py_in (lit '' id=\"\"'') (OutgoingReadReceipt_data w r))
   \<and> (message_id d = [] \<and> encodable (OutgoingDeliveredReceipt.peer_jid d)
      \<and> encodable (OutgoingDeliveredReceipt.receipt_message_id d)
     \<longrightarrow> OutgoingDeliveredReceipt_serialize w d = Inr (utf8s (OutgoingDeliveredReceipt_data w d))
         \<and> py_in (lit '' id=\"\"'') (OutgoingDeliveredReceipt_data w d))
   \<and> (message_id t = [] \<and> encodable (OutgoingIsTypingEvent.peer_jid t)
     \<longrightarrow> OutgoingIsTypingEvent_serialize w t = Inr (utf8s (OutgoingIsTypingEvent_data w t))
         \<and> py_in (lit '' id=\"\"'') (OutgoingIsTypingEvent_data w t))
   \<and> (message_id u = [] \<and> encodable (OutgoingGroupIsTypingEvent.peer_jid u)
     \<longrightarrow> OutgoingGroupIsTypingEvent_serialize w u
           = Inr (utf8s (OutgoingGroupIsTypingEvent_data w u))
         \<and> py_in (lit '' id=\"\"'') (OutgoingGroupIsTypingEvent_data w u))
   \<and> (message_id l = [] \<and> encodable (OutgoingLinkShareEvent.peer_jid l)
      \<and> encodable (link l) \<and> encodable (title l) \<and> encodable (text' l) \<and> encodable (app_name l)
     \<longrightarrow> OutgoingLinkShareEvent_serialize w l = Inr (utf8s (OutgoingLinkShareEvent_data w l))
         \<and> py_in (lit '' id=\"\"'') (OutgoingLinkShareEvent_data w l))"
proof (intro conjI impI)
  assume "message_id m = [] \<and> encodable (OutgoingChatMessage.peer_jid m)
      \<and> encodable (OutgoingChatMessage.body m) \<and> (\<forall>b. bot_mention_jid m = Some b \<longrightarrow> encodable b)"
  then show "OutgoingChatMessage_serialize w m = Inr (utf8s (OutgoingChatMessage_data w m))"
    and "py_in (lit '' id=\"\"'') (OutgoingChatMessage_data w m)"
    using OutgoingChatMessage_serialize_ok [of m w] empty_id_chat [of m w]
    by (simp_all add: encodable_Nil)
next
  assume "message_id r = [] \<and> encodable (OutgoingReadReceipt.peer_jid r)
      \<and> encodable (OutgoingReadReceipt.receipt_message_id r)
      \<and> (\<forall>g. OutgoingReadReceipt.group_jid r = Some g \<longrightarrow> encodable g)"
  then show "OutgoingReadReceipt_serialize w r = Inr (utf8s (OutgoingReadReceipt_data w r))"
    and "py_in (lit '' id=\"\"'') (OutgoingReadReceipt_data w r)"
    using OutgoingReadReceipt_serialize_ok [of r w] empty_id_read [of r w]
    by (simp_all add: encodable_Nil)
next
  assume "message_id d = [] \<and> encodable (OutgoingDeliveredReceipt.peer_jid d)
      \<and> encodable (OutgoingDeliveredReceipt.receipt_message_id d)"
  then show "OutgoingDeliveredReceipt_serialize w d = Inr (utf8s (OutgoingDeliveredReceipt_data w d))"
    and "py_in (lit '' id=\"\"'') (OutgoingDeliveredReceipt_data w d)"
    using OutgoingDeliveredReceipt_serialize_ok [of d w] empty_id_delivered [of d w]
    by (simp_all add: encodable_Nil)
next
  assume "message_id t = [] \<and> encodable (OutgoingIsTypingEvent.peer_jid t)"
  then show "OutgoingIsTypingEvent_serialize w t = Inr (utf8s (OutgoingIsTypingEvent_data w t))"
    and "py_in (lit '' id=\"\"'') (OutgoingIsTypingEvent_data w t)"
    using OutgoingIsTypingEvent_serialize_ok [of t w] empty_id_typing [of t w]
    by (simp_all add: encodable_Nil)
next
  assume "message_id u = [] \<and> encodable (OutgoingGroupIsTypingEvent.peer_jid u)"
  then show "OutgoingGroupIsTypingEvent_serialize w u
           = Inr (utf8s (OutgoingGroupIsTypingEvent_data w u))"
    and "py_in (lit '' id=\"\"'') (OutgoingGroupIsTypingEvent_data w u)"
    using OutgoingGroupIsTypingEvent_serialize_ok [of u w] empty_id_group_typing [of u w]
    by (simp_all add: encodable_Nil)
next
  assume "message_id l = [] \<and> encodable (OutgoingLinkShareEvent.peer_jid l)
      \<and> encodable (link l) \<and> encodable (title l) \<and> encodable (text' l) \<and> encodable (app_name l)"
  then show "OutgoingLinkShareEvent_serialize w l = Inr (utf8s (OutgoingLinkShareEvent_data w l))"
    and "py_in (lit '' id=\"\"'') (OutgoingLinkShareEvent_data w l)"
    using OutgoingLinkShareEvent_serialize_ok [of l w] empty_id_link [of l w]
    by (simp_all add: encodable_Nil)
qed

theorem C2_empty_message_id_witness:
  "OutgoingChatMessage_serialize example_world ((example_chat example_body)\<lparr>message_id := []\<rparr>)
     = Inr (utf8s (OutgoingChatMessage_data example_world
              ((example_chat example_body)\<lparr>message_id := []\<rparr>)))
   \<and> OutgoingReadReceipt_serialize example_world ((example_receipt None)\<lparr>message_id := []\<rparr>)
     = Inr (utf8s (OutgoingReadReceipt_data example_world
              ((example_receipt None)\<lparr>message_id := []\<rparr>)))
   \<and> OutgoingDeliveredReceipt_serialize example_world (example_delivered [])
     = Inr (utf8s (OutgoingDeliveredReceipt_data example_world (example_delivered [])))
   \<and> OutgoingIsTypingEvent_serialize example_world (example_typing\<lparr>message_id := []\<rparr>)
     = Inr (utf8s (OutgoingIsTypingEvent_data example_world (example_typing\<lparr>message_id := []\<rparr>)))
   \<and> OutgoingGroupIsTypingEvent_serialize example_world (example_group_typing\<lparr>message_id := []\<rparr>)
     = Inr (utf8s (OutgoingGroupIsTypingEvent_data example_world
              (example_group_typing\<lparr>message_id := []\<rparr>)))
   \<and> OutgoingLinkShareEvent_serialize example_world
        ((example_link (lit ''bob_x1@talk.kik.com''))\<lparr>message_id := []\<rparr>)
     = Inr (utf8s (OutgoingLinkShareEvent_data example_world
              ((example_link (lit ''bob_x1@talk.kik.com''))\<lparr>message_id := []\<rparr>)))"
  using C2_empty_message_id_is_serialized
    [of "(example_chat example_body)\<lparr>message_id := []\<rparr>" example_world
        "(example_receipt None)\<lparr>message_id := []\<rparr>"
        "example_delivered []"
        "example_typing\<lparr>message_id := []\<rparr>"
        "example_group_typing\<lparr>message_id := []\<rparr>"
        "(example_link (lit ''bob_x1@talk.kik.com''))\<lparr>message_id := []\<rparr>"]
  by (simp add: example_chat_def example_receipt_def example_delivered_def example_typing_def
      example_group_typing_def example_link_def encodable_lit example_body_encodable)

subsection \<open>C3: the preview of a chat message\<close>

text \<open>
  C3 says that serializing a chat message never raises, whatever the body. The stanza
  text is encoded with \<^verbatim>\<open>data.encode()\<close>, which raises \<^verbatim>\<open>UnicodeEncodeError\<close> when the text
  holds a lone surrogate: a body that is the single code point \<^verbatim>\<open>U+D800\<close> is such a string.
\<close>

theorem C3_lone_surrogate_counterexample:
  "OutgoingChatMessage_serialize example_world (example_chat [55296]) = Inl UnicodeEncodeError"
  by (simp add: OutgoingChatMessage_serialize_def str_encode_def OutgoingChatMessage_data_def
      Let_def example_chat_def encodable_append encodable_Cons is_surrogate_def
      escape_xml_def escape_char_def)

text \<open>
  C3, amended: the \<^verbatim>\<open>preview\<close> element, the fourth child from the end of the stanza, holds
  the escaped form of the first \<open>min 20 (length body)\<close> characters of the body, counted in
  code points; the truncation is applied to the raw body before escaping, so the preview is
  also a prefix of the escaped body and no entity is cut. Serialization returns the
  encoded stanza whenever the message identifier, the peer identifier, the body and the
  bot identifier hold no lone surrogate; this includes the empty body and bodies of
  multi-byte characters.
\<close>

theorem C3_preview_of_raw_body:
  "(\<exists>pre. OutgoingChatMessage_data w m =
      pre @ lit ''<preview>'' @ escape_xml (take 20 (OutgoingChatMessage.body m)) @ lit ''</preview>''
      @ lit ''<kik push=\"true\" qos=\"true\" timestamp=\"'' @ timestamp w @ lit ''\" />''
      @ lit ''<request xmlns=\"kik:message:receipt\" r=\"true\" d=\"true\" />''
      @ lit ''<ri></ri>''
      @ lit ''</message>'')
   \<and> length (take 20 (OutgoingChatMessage.body m)) = min 20 (length (OutgoingChatMessage.body m))
   \<and> escape_xml (OutgoingChatMessage.body m)
       = escape_xml (take 20 (OutgoingChatMessage.body m))
         @ escape_xml (drop 20 (OutgoingChatMessage.body m))
   \<and> (encodable (message_id m) \<and> encodable (OutgoingChatMessage.peer_jid m)
        \<and> encodable (OutgoingChatMessage.body m)
        \<and> (\<forall>b. bot_mention_jid m = Some b \<longrightarrow> encodable b)
       \<longrightarrow> OutgoingChatMessage_serialize w m = Inr (utf8s (OutgoingChatMessage_data w m)))"
proof -
  let ?mention = "if truthy (bot_mention_jid m)
             then lit ''<mention>'' @ lit ''<bot>'' @ format_opt (bot_mention_jid m) @ lit ''</bot>''
                  @ lit ''</mention>''
             else []"
  let ?pre = "lit ''<message type=\"'' @ (if \<not> is_group m then lit ''chat'' else lit ''groupchat'')
         @ lit ''\" to=\"'' @ OutgoingChatMessage.peer_jid m
         @ lit ''\" id=\"'' @ message_id m @ lit ''\" cts=\"'' @ timestamp w @ lit ''\">''
         @ lit ''<body>'' @ escape_xml (OutgoingChatMessage.body m) @ lit ''</body>''
         @ ?mention"
  have "OutgoingChatMessage_data w m =
      ?pre @ lit ''<preview>'' @ escape_xml (take 20 (OutgoingChatMessage.body m)) @ lit ''</preview>''
      @ lit ''<kik push=\"true\" qos=\"true\" timestamp=\"'' @ timestamp w @ lit ''\" />''
      @ lit ''<request xmlns=\"kik:message:receipt\" r=\"true\" d=\"true\" />''
      @ lit ''<ri></ri>''
      @ lit ''</message>''"
    by (simp add: OutgoingChatMessage_data_def Let_def)
  then have 1: "\<exists>pre. OutgoingChatMessage_data w m =
      pre @ lit ''<preview>'' @ escape_xml (take 20 (OutgoingChatMessage.body m)) @ lit ''</preview>''
      @ lit ''<kik push=\"true\" qos=\"true\" timestamp=\"'' @ timestamp w @ lit ''\" />''
      @ lit ''<request xmlns=\"kik:message:receipt\" r=\"true\" d=\"true\" />''
      @ lit ''<ri></ri>''
      @ lit ''</message>''"
    by (rule suffix_exI)
  have 2: "length (take 20 (OutgoingChatMessage.body m)) = min 20 (length (OutgoingChatMessage.body m))"
    by simp
  have 3: "escape_xml (OutgoingChatMessage.body m)
       = escape_xml (take 20 (OutgoingChatMessage.body m))
         @ escape_xml (drop 20 (OutgoingChatMessage.body m))"
    by (rule escape_xml_take_drop)
  have 4: "encodable (message_id m) \<and> encodable (OutgoingChatMessage.peer_jid m)
        \<and> encodable (OutgoingChatMessage.body m)
        \<and> (\<forall>b. bot_mention_jid m = Some b \<longrightarrow> encodable b)
       \<longrightarrow> OutgoingChatMessage_serialize w m = Inr (utf8s (OutgoingChatMessage_data w m))"
    using OutgoingChatMessage_serialize_ok [of m w] by (intro impI) (elim conjE)
  show ?thesis by (intro conjI) (rule 1, rule 2, rule 3, rule 4)
qed

theorem C3_preview_witness:
  "encodable (OutgoingChatMessage.body (example_chat example_body))
   \<and> OutgoingChatMessage_serialize example_world (example_chat example_body)
       = Inr (utf8s (OutgoingChatMessage_data example_world (example_chat example_body)))
   \<and> take 20 (OutgoingChatMessage.body (example_chat example_body))
       = lit ''caf'' @ [233] @ lit '' <b>'' @ [8364] @ lit ''5</b> & '' @ [128512] @ lit '' s''
   \<and> escape_xml (take 20 (OutgoingChatMessage.body (example_chat example_body)))
       = lit ''caf'' @ [233] @ lit '' &lt;b&gt;'' @ [8364] @ lit ''5&lt;/b&gt; &amp; '' @ [128512]
         @ lit '' s''"
proof -
  have b: "OutgoingChatMessage.body (example_chat example_body) = example_body"
    by (simp add: example_chat_def)
  have e: "encodable (message_id (example_chat example_body))"
    "encodable (OutgoingChatMessage.peer_jid (example_chat example_body))"
    "encodable (OutgoingChatMessage.body (example_chat example_body))"
    "\<forall>b. bot_mention_jid (example_chat example_body) = Some b \<longrightarrow> encodable b"
    by (simp_all add: example_chat_def encodable_lit example_body_encodable)
  have t: "take 20 example_body
       = lit ''caf'' @ [233] @ lit '' <b>'' @ [8364] @ lit ''5</b> & '' @ [128512] @ lit '' s''"
    by (simp add: example_body_def lit_def)
  have x: "escape_xml (lit ''caf'' @ [233] @ lit '' <b>'' @ [8364] @ lit ''5</b> & '' @ [128512] @ lit '' s'')
       = lit ''caf'' @ [233] @ lit '' &lt;b&gt;'' @ [8364] @ lit ''5&lt;/b&gt; &amp; '' @ [128512]
         @ lit '' s''"
    by (simp add: escape_xml_def escape_char_def lit_def)
  show ?thesis
    using e C3_preview_of_raw_body [of example_world "example_chat example_body"] t x
    by (simp add: b)
qed

subsection \<open>C4: the clock of the serializers\<close>

text \<open>
  C4 says that the bytes of an encoder are determined by its inputs, which are the
  element's attributes, the message identifier and an injected clock value, and depend on
  no hidden time source. The serializers have no clock input: the arguments of
  \<^verbatim>\<open>serialize(self)\<close> are the element alone, and the method reads \<^verbatim>\<open>time.time()\<close> itself. As
  stated, the claim asks that the result is determined by the arguments of the call. It is
  not: the same delivered receipt, with the same attributes and the same identifier, is
  serialized to different bytes in two states of the world that differ in the wall clock
  alone.
\<close>

theorem C4_hidden_clock_counterexample:
  "OutgoingDeliveredReceipt_serialize example_world (example_delivered (lit ''a1b2''))
     = Inr ''<message type=\"receipt\" id=\"a1b2\" to=\"bob_x1@talk.kik.com\" cts=\"1541376000123\"><kik push=\"false\" qos=\"true\" timestamp=\"1541376000123\" /><receipt xmlns=\"kik:message:receipt\" type=\"delivered\"><msgid id=\"c3d4\" /></receipt></message>''
   \<and> OutgoingDeliveredReceipt_serialize example_world_later (example_delivered (lit ''a1b2''))
     = Inr ''<message type=\"receipt\" id=\"a1b2\" to=\"bob_x1@talk.kik.com\" cts=\"1541376060000\"><kik push=\"false\" qos=\"true\" timestamp=\"1541376060000\" /><receipt xmlns=\"kik:message:receipt\" type=\"delivered\"><msgid id=\"c3d4\" /></receipt></message>''
   \<and> \<not> determined_by_arguments
         (OutgoingDeliveredReceipt_serialize :: world \<Rightarrow> OutgoingDeliveredReceipt \<Rightarrow> error + bytes)"
proof -
  have 1: "OutgoingDeliveredReceipt_data example_world (example_delivered (lit ''a1b2''))
     = lit ''<message type=\"receipt\" id=\"a1b2\" to=\"bob_x1@talk.kik.com\" cts=\"1541376000123\"><kik push=\"false\" qos=\"true\" timestamp=\"1541376000123\" /><receipt xmlns=\"kik:message:receipt\" type=\"delivered\"><msgid id=\"c3d4\" /></receipt></message>''"
    by (simp add: example_delivered_def OutgoingDeliveredReceipt_data_def example_timestamp
        Let_def lit_def)
  have 2: "OutgoingDeliveredReceipt_data example_world_later (example_delivered (lit ''a1b2''))
     = lit ''<message type=\"receipt\" id=\"a1b2\" to=\"bob_x1@talk.kik.com\" cts=\"1541376060000\"><kik push=\"false\" qos=\"true\" timestamp=\"1541376060000\" /><receipt xmlns=\"kik:message:receipt\" type=\"delivered\"><msgid id=\"c3d4\" /></receipt></message>''"
    by (simp add: example_delivered_def OutgoingDeliveredReceipt_data_def example_timestamp_later
        Let_def lit_def)
  have 3: "OutgoingDeliveredReceipt_serialize example_world (example_delivered (lit ''a1b2''))
     = Inr ''<message type=\"receipt\" id=\"a1b2\" to=\"bob_x1@talk.kik.com\" cts=\"1541376000123\"><kik push=\"false\" qos=\"true\" timestamp=\"1541376000123\" /><receipt xmlns=\"kik:message:receipt\" type=\"delivered\"><msgid id=\"c3d4\" /></receipt></message>''"
    by (simp only: OutgoingDeliveredReceipt_serialize_def 1) (rule encode_lit, simp)
  have 4: "OutgoingDeliveredReceipt_serialize example_world_later (example_delivered (lit ''a1b2''))
     = Inr ''<message type=\"receipt\" id=\"a1b2\" to=\"bob_x1@talk.kik.com\" cts=\"1541376060000\"><kik push=\"false\" qos=\"true\" timestamp=\"1541376060000\" /><receipt xmlns=\"kik:message:receipt\" type=\"delivered\"><msgid id=\"c3d4\" /></receipt></message>''"
    by (simp only: OutgoingDeliveredReceipt_serialize_def 2) (rule encode_lit, simp)
  have 5: "OutgoingDeliveredReceipt_serialize example_world (example_delivered (lit ''a1b2''))
     \<noteq> OutgoingDeliveredReceipt_serialize example_world_later (example_delivered (lit ''a1b2''))"
    by (simp only: 3 4) simp
  have 6: "\<not> determined_by_arguments
         (OutgoingDeliveredReceipt_serialize :: world \<Rightarrow> OutgoingDeliveredReceipt \<Rightarrow> error + bytes)"
    unfolding determined_by_arguments_def using 5 by blast
  show ?thesis by (intro conjI) (rule 3, rule 4, rule 6)
qed

text \<open>
  C4, amended: the result of every serializer is determined by the element's attributes,
  its message identifier and the reading, in milliseconds, of the process-wide wall clock
  at the call, which the method takes itself and which cannot be passed in. For an
  element whose attributes hold no lone surrogate, two calls in two states of the world
  return the same bytes if and only if the wall clock reads the same in both: the result
  follows the hidden clock, and nothing else of the state of the world.
\<close>

theorem C4_result_follows_the_wall_clock:
  fixes w :: "'a world_scheme" and w' :: "'b world_scheme"
  shows "(encodable (message_id m)
      \<and> encodable (OutgoingChatMessage.peer_jid m)
      \<and> encodable (OutgoingChatMessage.body m)
      \<and> (\<forall>b. bot_mention_jid m = Some b \<longrightarrow> encodable b)
     \<longrightarrow> (OutgoingChatMessage_serialize w m = OutgoingChatMessage_serialize w' m \<longleftrightarrow> time_ms w = time_ms w'))
   \<and> (encodable (message_id r)
      \<and> encodable (OutgoingReadReceipt.peer_jid r)
      \<and> encodable (OutgoingReadReceipt.receipt_message_id r)
      \<and> (\<forall>g. OutgoingReadReceipt.group_jid r = Some g \<longrightarrow> encodable g)
     \<longrightarrow> (OutgoingReadReceipt_serialize w r = OutgoingReadReceipt_serialize w' r \<longleftrightarrow> time_ms w = time_ms w'))
   \<and> (encodable (message_id d)
      \<and> encodable (OutgoingDeliveredReceipt.peer_jid d)
      \<and> encodable (OutgoingDeliveredReceipt.receipt_message_id d)
     \<longrightarrow> (OutgoingDeliveredReceipt_serialize w d = OutgoingDeliveredReceipt_serialize w' d \<longleftrightarrow> time_ms w = time_ms w'))
   \<and> (encodable (message_id t)
      \<and> encodable (OutgoingIsTypingEvent.peer_jid t)
     \<longrightarrow> (OutgoingIsTypingEvent_serialize w t = OutgoingIsTypingEvent_serialize w' t \<longleftrightarrow> time_ms w = time_ms w'))
   \<and> (encodable (message_id u)
      \<and> encodable (OutgoingGroupIsTypingEvent.peer_jid u)
     \<longrightarrow> (OutgoingGroupIsTypingEvent_serialize w u = OutgoingGroupIsTypingEvent_serialize w' u \<longleftrightarrow> time_ms w = time_ms w'))
   \<and> (encodable (message_id l)
      \<and> encodable (OutgoingLinkShareEvent.peer_jid l)
      \<and> encodable (link l)
      \<and> encodable (title l)
      \<and> encodable (text' l)
      \<and> encodable (app_name l)
     \<longrightarrow> (OutgoingLinkShareEvent_serialize w l = OutgoingLinkShareEvent_serialize w' l \<longleftrightarrow> time_ms w = time_ms w'))"
proof -
  have chat: "encodable (message_id m)
      \<and> encodable (OutgoingChatMessage.peer_jid m)
      \<and> encodable (OutgoingChatMessage.body m)
      \<and> (\<forall>b. bot_mention_jid m = Some b \<longrightarrow> encodable b)
     \<longrightarrow> (OutgoingChatMessage_serialize w m = OutgoingChatMessage_serialize w' m \<longleftrightarrow> time_ms w = time_ms w')"
    using OutgoingChatMessage_clock_iff [of m w w'] by blast
  have read: "encodable (message_id r)
      \<and> encodable (OutgoingReadReceipt.peer_jid r)
      \<and> encodable (OutgoingReadReceipt.receipt_message_id r)
      \<and> (\<forall>g. OutgoingReadReceipt.group_jid r = Some g \<longrightarrow> encodable g)
     \<longrightarrow> (OutgoingReadReceipt_serialize w r = OutgoingReadReceipt_serialize w' r \<longleftrightarrow> time_ms w = time_ms w')"
    using OutgoingReadReceipt_clock_iff [of r w w'] by blast
  have delivered: "encodable (message_id d)
      \<and> encodable (OutgoingDeliveredReceipt.peer_jid d)
      \<and> encodable (OutgoingDeliveredReceipt.receipt_message_id d)
     \<longrightarrow> (OutgoingDeliveredReceipt_serialize w d = OutgoingDeliveredReceipt_serialize w' d \<longleftrightarrow> time_ms w = time_ms w')"
    using OutgoingDeliveredReceipt_clock_iff [of d w w'] by blast
  have typing: "encodable (message_id t)
      \<and> encodable (OutgoingIsTypingEvent.peer_jid t)
     \<longrightarrow> (OutgoingIsTypingEvent_serialize w t = OutgoingIsTypingEvent_serialize w' t \<longleftrightarrow> time_ms w = time_ms w')"
    using OutgoingIsTypingEvent_clock_iff [of t w w'] by blast
  have group_typing: "encodable (message_id u)
      \<and> encodable (OutgoingGroupIsTypingEvent.peer_jid u)
     \<longrightarrow> (OutgoingGroupIsTypingEvent_serialize w u = OutgoingGroupIsTypingEvent_serialize w' u \<longleftrightarrow> time_ms w = time_ms w')"
    using OutgoingGroupIsTypingEvent_clock_iff [of u w w'] by blast
  have link: "encodable (message_id l)
      \<and> encodable (OutgoingLinkShareEvent.peer_jid l)
      \<and> encodable (link l)
      \<and> encodable (title l)
      \<and> encodable (text' l)
      \<and> encodable (app_name l)
     \<longrightarrow> (OutgoingLinkShareEvent_serialize w l = OutgoingLinkShareEvent_serialize w' l \<longleftrightarrow> time_ms w = time_ms w')"
    using OutgoingLinkShareEvent_clock_iff [of l w w'] by blast
  show ?thesis
    by (intro conjI) (rule chat, rule read, rule delivered, rule typing, rule group_typing, rule link)
qed

theorem C4_wall_clock_witness:
  "(OutgoingDeliveredReceipt_serialize example_world (example_delivered (lit ''a1b2''))
      = OutgoingDeliveredReceipt_serialize \<lparr>time_ms = 1541376000123, \<dots> = True\<rparr>
          (example_delivered (lit ''a1b2'')))
   \<and> OutgoingDeliveredReceipt_serialize example_world (example_delivered (lit ''a1b2''))
      \<noteq> OutgoingDeliveredReceipt_serialize example_world_later (example_delivered (lit ''a1b2''))
   \<and> OutgoingChatMessage_serialize example_world (example_chat example_body)
      \<noteq> OutgoingChatMessage_serialize example_world_later (example_chat example_body)"
proof -
  have e: "encodable (message_id (example_delivered (lit ''a1b2'')))"
    "encodable (OutgoingDeliveredReceipt.peer_jid (example_delivered (lit ''a1b2'')))"
    "encodable (OutgoingDeliveredReceipt.receipt_message_id (example_delivered (lit ''a1b2'')))"
    "encodable (message_id (example_chat example_body))"
    "encodable (OutgoingChatMessage.peer_jid (example_chat example_body))"
    "encodable (OutgoingChatMessage.body (example_chat example_body))"
    "\<forall>b. bot_mention_jid (example_chat example_body) = Some b \<longrightarrow> encodable b"
    by (simp_all add: example_delivered_def example_chat_def encodable_lit example_body_encodable)
  have t: "time_ms example_world = time_ms \<lparr>time_ms = 1541376000123, \<dots> = True\<rparr>"
    "time_ms example_world \<noteq> time_ms example_world_later"
    by (simp_all add: example_world_def example_world_later_def)
  have 1: "OutgoingDeliveredReceipt_serialize example_world (example_delivered (lit ''a1b2''))
      = OutgoingDeliveredReceipt_serialize \<lparr>time_ms = 1541376000123, \<dots> = True\<rparr>
          (example_delivered (lit ''a1b2''))"
    using C4_result_follows_the_wall_clock
      [where w = example_world and w' = "\<lparr>time_ms = 1541376000123, \<dots> = True\<rparr>"
         and d = "example_delivered (lit ''a1b2'')"] e t
    by blast
  have 2: "OutgoingDeliveredReceipt_serialize example_world (example_delivered (lit ''a1b2''))
      \<noteq> OutgoingDeliveredReceipt_serialize example_world_later (example_delivered (lit ''a1b2''))"
    "OutgoingChatMessage_serialize example_world (example_chat example_body)
      \<noteq> OutgoingChatMessage_serialize example_world_later (example_chat example_body)"
    using C4_result_follows_the_wall_clock
      [where w = example_world and w' = example_world_later
         and d = "example_delivered (lit ''a1b2'')" and m = "example_chat example_body"] e t
    by blast+
  show ?thesis using 1 2 by blast
qed

subsection \<open>C5: the receipt request flags of a chat message\<close>

text \<open>
  C5 says that a \<^verbatim>\<open>request\<close> element without the attribute decodes to false without an
  error. The source reads the attribute with \<^verbatim>\<open>data.request['d']\<close>, which raises \<^verbatim>\<open>KeyError\<close>
  when the element has no such attribute: a stanza whose \<^verbatim>\<open>request\<close> element has only
  \<^verbatim>\<open>r="true"\<close> is not decoded.
\<close>

theorem C5_absent_attribute_counterexample:
  "find_tag (example_chat_stanza [(lit ''r'', lit ''true'')] []) (lit ''request'')
     = Some (Tag (lit ''request'') [(lit ''r'', lit ''true'')] [])
   \<and> IncomingChatMessage_init no_base (example_chat_stanza [(lit ''r'', lit ''true'')] [])
     = Inl (KeyError (lit ''d''))"
  by (simp add: example_chat_stanza_def IncomingChatMessage_init_def request_attr_true_def
      no_base_def find_tag_def findAll_def ebind_def lit_def)

text \<open>
  C5, amended: when a chat-message stanza is decoded, \<^verbatim>\<open>request_delivered_receipt\<close> is true
  exactly when the stanza has a \<^verbatim>\<open>request\<close> element (the first one below the stanza, at any
  depth) whose \<^verbatim>\<open>d\<close> attribute is the text \<^verbatim>\<open>true\<close>, and \<^verbatim>\<open>request_read_receipt\<close> likewise
  with the \<^verbatim>\<open>r\<close> attribute; so any other attribute value, and a stanza without a
  \<^verbatim>\<open>request\<close> element, give false. A \<^verbatim>\<open>request\<close> element that lacks the \<^verbatim>\<open>d\<close> attribute, or
  has it and lacks the \<^verbatim>\<open>r\<close> attribute, makes the decoder raise \<^verbatim>\<open>KeyError\<close> for that
  attribute.
\<close>

theorem C5_request_flags:
  "(IncomingChatMessage_init xi data = Inr m \<longrightarrow>
      (request_delivered_receipt m \<longleftrightarrow>
         (\<exists>req. find_tag data (lit ''request'') = Some req
              \<and> map_of (attrs_of req) (lit ''d'') = Some (lit ''true'')))
    \<and> (request_read_receipt m \<longleftrightarrow>
         (\<exists>req. find_tag data (lit ''request'') = Some req
              \<and> map_of (attrs_of req) (lit ''r'') = Some (lit ''true''))))
   \<and> (xi data = Inr () \<and> find_tag data (lit ''request'') = Some req
        \<and> map_of (attrs_of req) (lit ''d'') = None
      \<longrightarrow> IncomingChatMessage_init xi data = Inl (KeyError (lit ''d'')))
   \<and> (xi data = Inr () \<and> find_tag data (lit ''request'') = Some req
        \<and> map_of (attrs_of req) (lit ''d'') \<noteq> None \<and> map_of (attrs_of req) (lit ''r'') = None
      \<longrightarrow> IncomingChatMessage_init xi data = Inl (KeyError (lit ''r'')))"
proof (intro conjI impI)
  assume ok: "IncomingChatMessage_init xi data = Inr m"
  show "request_delivered_receipt m \<longleftrightarrow>
         (\<exists>req. find_tag data (lit ''request'') = Some req
              \<and> map_of (attrs_of req) (lit ''d'') = Some (lit ''true''))"
    using IncomingChatMessage_init_flags(1) [OF ok]
    by (auto simp: request_attr_true_cases split: option.splits)
  show "request_read_receipt m \<longleftrightarrow>
         (\<exists>req. find_tag data (lit ''request'') = Some req
              \<and> map_of (attrs_of req) (lit ''r'') = Some (lit ''true''))"
    using IncomingChatMessage_init_flags(2) [OF ok]
    by (auto simp: request_attr_true_cases split: option.splits)
next
  assume "xi data = Inr () \<and> find_tag data (lit ''request'') = Some req
        \<and> map_of (attrs_of req) (lit ''d'') = None"
  then show "IncomingChatMessage_init xi data = Inl (KeyError (lit ''d''))"
    by (simp add: IncomingChatMessage_init_def request_attr_true_cases ebind_Inr ebind_Inl)
next
  assume "xi data = Inr () \<and> find_tag data (lit ''request'') = Some req
        \<and> map_of (attrs_of req) (lit ''d'') \<noteq> None \<and> map_of (attrs_of req) (lit ''r'') = None"
  then show "IncomingChatMessage_init xi data = Inl (KeyError (lit ''r''))"
    by (auto simp add: IncomingChatMessage_init_def request_attr_true_cases ebind_Inr ebind_Inl)
qed

theorem C5_request_flags_witness:
  "IncomingChatMessage_init no_base
      (example_chat_stanza [(lit ''d'', lit ''true''), (lit ''r'', lit ''false'')] [])
     = Inr \<lparr>request_delivered_receipt = True, request_read_receipt = False, status = None,
            preview = None, from_jid = lit ''alice_y2@talk.kik.com'',
            to_jid = lit ''bob_x1@talk.kik.com'', body = Some (lit ''hi''), is_typing = None\<rparr>
   \<and> (request_delivered_receipt
        \<lparr>request_delivered_receipt = True, request_read_receipt = False, status = None,
            preview = None, from_jid = lit ''alice_y2@talk.kik.com'',
            to_jid = lit ''bob_x1@talk.kik.com'', body = Some (lit ''hi''), is_typing = None\<rparr>
       \<longleftrightarrow> (\<exists>req. find_tag (example_chat_stanza [(lit ''d'', lit ''true''), (lit ''r'', lit ''false'')] [])
                    (lit ''request'') = Some req
              \<and> map_of (attrs_of req) (lit ''d'') = Some (lit ''true'')))
   \<and> IncomingChatMessage_init no_base (example_chat_stanza [(lit ''d'', lit ''true'')] [])
     = Inl (KeyError (lit ''r''))"
proof -
  let ?s = "example_chat_stanza [(lit ''d'', lit ''true''), (lit ''r'', lit ''false'')] []"
  let ?m = "\<lparr>request_delivered_receipt = True, request_read_receipt = False, status = None,
            preview = None, from_jid = lit ''alice_y2@talk.kik.com'',
            to_jid = lit ''bob_x1@talk.kik.com'', body = Some (lit ''hi''), is_typing = None\<rparr>"
  have ok: "IncomingChatMessage_init no_base ?s = Inr ?m"
    by (simp add: example_chat_stanza_def IncomingChatMessage_init_def request_attr_true_def
        no_base_def find_tag_def findAll_def find_nonrecursive_def ebind_def lit_def)
  have 1: "request_delivered_receipt ?m
       \<longleftrightarrow> (\<exists>req. find_tag ?s (lit ''request'') = Some req
              \<and> map_of (attrs_of req) (lit ''d'') = Some (lit ''true''))"
    using C5_request_flags [of no_base ?s ?m] ok by blast
  have f: "find_tag (example_chat_stanza [(lit ''d'', lit ''true'')] []) (lit ''request'')
        = Some (Tag (lit ''request'') [(lit ''d'', lit ''true'')] [])"
    by (rule find_request_example)
  have 2: "IncomingChatMessage_init no_base (example_chat_stanza [(lit ''d'', lit ''true'')] [])
     = Inl (KeyError (lit ''r''))"
    using C5_request_flags [of no_base "example_chat_stanza [(lit ''d'', lit ''true'')] []" _
        "Tag (lit ''request'') [(lit ''d'', lit ''true'')] []"] f
    by (simp add: no_base_def lit_def)
  show ?thesis using ok 1 2 by blast
qed

subsection \<open>C6: a group chat message without a group element\<close>

text \<open>
  C6 says that decoding a stanza without a \<^verbatim>\<open>g\<close> element among its children fails with an
  error that identifies the missing element. The decoder does fail, but with the
  \<^verbatim>\<open>TypeError\<close> that \<^verbatim>\<open>g['jid']\<close> raises on \<^verbatim>\<open>None\<close>, which names no element.
\<close>

theorem C6_error_names_no_element_counterexample:
  "find_nonrecursive
      (example_chat_stanza [(lit ''d'', lit ''true''), (lit ''r'', lit ''true'')] []) (lit ''g'') = None
   \<and> IncomingGroupChatMessage_init no_base
       (example_chat_stanza [(lit ''d'', lit ''true''), (lit ''r'', lit ''true'')] []) = Inl TypeError
   \<and> \<not> names_element TypeError (lit ''g'')"
  by (simp add: example_chat_stanza_def IncomingGroupChatMessage_init_def
      IncomingChatMessage_init_def request_attr_true_def no_base_def find_tag_def findAll_def
      find_nonrecursive_def getitem_opt_def names_element_def ebind_def lit_def)

text \<open>
  C6, amended: a stanza without a \<^verbatim>\<open>g\<close> element among its children is never decoded as a
  group chat message. The decoder returns an error, which is the \<^verbatim>\<open>TypeError\<close> of
  subscripting \<^verbatim>\<open>None\<close> whenever the inherited chat-message part is decoded, and which does
  not name the missing element. When the decoder succeeds, the group identifier is the
  \<^verbatim>\<open>jid\<close> attribute of that child, never a default.
\<close>

theorem C6_group_chat_without_g_fails:
  "(find_nonrecursive data (lit ''g'') = None \<longrightarrow>
      (\<exists>e. IncomingGroupChatMessage_init xi data = Inl e)
      \<and> (\<forall>m. IncomingChatMessage_init xi data = Inr m
             \<longrightarrow> IncomingGroupChatMessage_init xi data = Inl TypeError)
      \<and> (\<forall>m e. IncomingChatMessage_init xi data = Inr m
             \<and> IncomingGroupChatMessage_init xi data = Inl e
             \<longrightarrow> \<not> names_element e (lit ''g'')))
   \<and> (IncomingGroupChatMessage_init xi data = Inr gm \<longrightarrow>
      (\<exists>g. find_nonrecursive data (lit ''g'') = Some g
          \<and> map_of (attrs_of g) (lit ''jid'') = Some (IncomingGroupChatMessage.group_jid gm)))"
proof (intro conjI impI)
  assume no_g: "find_nonrecursive data (lit ''g'') = None"
  show "\<exists>e. IncomingGroupChatMessage_init xi data = Inl e"
    using no_g
    by (cases "IncomingChatMessage_init xi data")
      (simp_all add: IncomingGroupChatMessage_init_def ebind_def getitem_opt_def)
  show "\<forall>m. IncomingChatMessage_init xi data = Inr m
             \<longrightarrow> IncomingGroupChatMessage_init xi data = Inl TypeError"
    using no_g by (simp add: IncomingGroupChatMessage_init_def ebind_def getitem_opt_def)
  show "\<forall>m e. IncomingChatMessage_init xi data = Inr m
             \<and> IncomingGroupChatMessage_init xi data = Inl e
             \<longrightarrow> \<not> names_element e (lit ''g'')"
    using no_g
    by (auto simp add: IncomingGroupChatMessage_init_def ebind_def getitem_opt_def
        names_element_def)
next
  assume ok: "IncomingGroupChatMessage_init xi data = Inr gm"
  then obtain m j where j: "getitem_opt (find_nonrecursive data (lit ''g'')) (lit ''jid'') = Inr j"
    and gm: "gm = IncomingChatMessage.extend m (IncomingGroupChatMessage.fields j)"
    by (auto simp: IncomingGroupChatMessage_init_def ebind_eq_Inr Let_def)
  from j obtain g where g: "find_nonrecursive data (lit ''g'') = Some g"
    and gj: "getitem g (lit ''jid'') = Inr j"
    by (cases "find_nonrecursive data (lit ''g'')") (simp_all add: getitem_opt_def)
  from g obtain a cs where "g = Tag (lit ''g'') a cs"
    by (auto dest: find_nonrecursive_is_Tag)
  with gj have "map_of (attrs_of g) (lit ''jid'') = Some j"
    by (auto split: option.splits)
  moreover have "IncomingGroupChatMessage.group_jid gm = j"
    by (simp add: gm IncomingChatMessage.extend_def IncomingGroupChatMessage.fields_def IncomingChatMessage.defs IncomingGroupChatMessage.defs)
  ultimately show "\<exists>g. find_nonrecursive data (lit ''g'') = Some g
          \<and> map_of (attrs_of g) (lit ''jid'') = Some (IncomingGroupChatMessage.group_jid gm)"
    using g by simp
qed

theorem C6_group_chat_witness:
  "find_nonrecursive
      (example_chat_stanza [(lit ''d'', lit ''true''), (lit ''r'', lit ''true'')]
         [Tag (lit ''content'') [] [example_g]]) (lit ''g'') = None
   \<and> IncomingGroupChatMessage_init no_base
       (example_chat_stanza [(lit ''d'', lit ''true''), (lit ''r'', lit ''true'')]
         [Tag (lit ''content'') [] [example_g]]) = Inl TypeError
   \<and> IncomingGroupChatMessage_init no_base
       (example_chat_stanza [(lit ''d'', lit ''true''), (lit ''r'', lit ''true'')] []) = Inl TypeError"
proof -
  let ?s = "example_chat_stanza [(lit ''d'', lit ''true''), (lit ''r'', lit ''true'')]
         [Tag (lit ''content'') [] [example_g]]"
  let ?t = "example_chat_stanza [(lit ''d'', lit ''true''), (lit ''r'', lit ''true'')] []"
  have ns: "find_nonrecursive ?s (lit ''g'') = None"
    by (simp add: example_chat_stanza_def find_nonrecursive_def lit_def)
  have nt: "find_nonrecursive ?t (lit ''g'') = None"
    by (simp add: example_chat_stanza_def find_nonrecursive_def lit_def)
  have "\<exists>m. IncomingChatMessage_init no_base ?s = Inr m"
    by (simp add: example_chat_stanza_def example_g_def IncomingChatMessage_init_def
        request_attr_true_def no_base_def find_tag_def findAll_def find_nonrecursive_def
        ebind_def lit_def)
  then have 1: "IncomingGroupChatMessage_init no_base ?s = Inl TypeError"
    using C6_group_chat_without_g_fails [of ?s no_base] ns by blast
  have "\<exists>m. IncomingChatMessage_init no_base ?t = Inr m"
    by (simp add: example_chat_stanza_def IncomingChatMessage_init_def
        request_attr_true_def no_base_def find_tag_def findAll_def find_nonrecursive_def
        ebind_def lit_def)
  then have 2: "IncomingGroupChatMessage_init no_base ?t = Inl TypeError"
    using C6_group_chat_without_g_fails [of ?t no_base] nt by blast
  show ?thesis using ns 1 2 by blast
qed

subsection \<open>C7: the extras table of a sticker\<close>



subsection \<open>C8: the link share stanza\<close>




subsection \<open>C9: the identifiers of a group receipt\<close>



subsection \<open>C10: duplicate keys in the extras table\<close>

text \<open>
  C10: in the table that \<^verbatim>\<open>parse_extras\<close> returns, the entry of a key is the value of the
  last item, in document order, with that key: a later item overwrites an earlier one.
  The entry of a key is determined by the items with that key alone, so the entries of
  other keys are not affected.
\<close>

theorem C10_last_duplicate_key_wins:
  assumes "parse_extras (Some extras) = Inr m"
  shows "\<exists>pairs. map item_pair (findAll extras (lit ''item'')) = map Some pairs
     \<and> (\<forall>i<length pairs.
          (\<forall>j. i < j \<and> j < length pairs \<longrightarrow> fst (pairs ! j) \<noteq> fst (pairs ! i))
          \<longrightarrow> m (fst (pairs ! i)) = Some (snd (pairs ! i)))
     \<and> (\<forall>k. m k = map_of (rev (filter (\<lambda>p. fst p = k) pairs)) k)"
proof -
  from parse_extras_table [OF assms] obtain pairs
    where p: "map item_pair (findAll extras (lit ''item'')) = map Some pairs"
      and m: "m = map_of (rev pairs)" by blast
  have 1: "\<forall>i<length pairs.
          (\<forall>j. i < j \<and> j < length pairs \<longrightarrow> fst (pairs ! j) \<noteq> fst (pairs ! i))
          \<longrightarrow> m (fst (pairs ! i)) = Some (snd (pairs ! i))"
    using map_of_rev_last [of _ pairs] by (simp add: m)
  have 2: "\<forall>k. m k = map_of (rev (filter (\<lambda>p. fst p = k) pairs)) k"
    using map_of_filter_key [of _ "rev pairs"] by (simp add: m rev_filter)
  show ?thesis using p 1 2 by blast
qed

theorem C10_last_duplicate_key_witness:
  "parse_extras (Some example_extras)
     = Inr (Map.empty(Some (lit ''sticker_id'') \<mapsto> lit ''5'', Some (lit ''campaign'') \<mapsto> lit ''spring'',
                      Some (lit ''sticker_id'') \<mapsto> lit ''7''))
   \<and> (Map.empty(Some (lit ''sticker_id'') \<mapsto> lit ''5'', Some (lit ''campaign'') \<mapsto> lit ''spring'',
                 Some (lit ''sticker_id'') \<mapsto> lit ''7'')) (Some (lit ''sticker_id'')) = Some (lit ''7'')
   \<and> (Map.empty(Some (lit ''sticker_id'') \<mapsto> lit ''5'', Some (lit ''campaign'') \<mapsto> lit ''spring'',
                 Some (lit ''sticker_id'') \<mapsto> lit ''7'')) (Some (lit ''campaign'')) = Some (lit ''spring'')"
proof -
  let ?m = "Map.empty(Some (lit ''sticker_id'') \<mapsto> lit ''5'', Some (lit ''campaign'') \<mapsto> lit ''spring'',
                      Some (lit ''sticker_id'') \<mapsto> lit ''7'')"
  let ?ps = "[(Some (lit ''sticker_id''), lit ''5''), (Some (lit ''campaign''), lit ''spring''),
               (Some (lit ''sticker_id''), lit ''7'')]"
  from C10_last_duplicate_key_wins [OF example_extras_parsed] obtain pairs
    where p: "map item_pair (findAll example_extras (lit ''item'')) = map Some pairs"
      and l: "\<forall>i<length pairs.
          (\<forall>j. i < j \<and> j < length pairs \<longrightarrow> fst (pairs ! j) \<noteq> fst (pairs ! i))
          \<longrightarrow> ?m (fst (pairs ! i)) = Some (snd (pairs ! i))"
    by blast
  from p example_extras_items have "map Some pairs = map Some ?ps" by simp
  then have ps: "pairs = ?ps" by (rule map_injective) simp
  have 1: "?m (Some (lit ''sticker_id'')) = Some (lit ''7'')"
    using l [rule_format, of 2] by (simp add: ps)
  have 2: "?m (Some (lit ''campaign'')) = Some (lit ''spring'')"
    using l [rule_format, of 1] by (simp add: ps lit_def nth_Cons')
  show ?thesis using example_extras_parsed 1 2 by blast
qed

end
